theory Spec2Isabelle
  imports Complex_Main
begin

section \<open>HTTP exceptions\<close>

text \<open>
  The services and the middleware signal failure by throwing one of the framework's
  exception classes. Every throw of the source is a value of \<open>http_exception\<close>, and a
  function that may throw returns \<open>http_exception + 'a\<close> (\<open>Inl\<close> the exception).
  \<open>HttpException\<close> carries the response body the rate limiter builds
  (\<open>statusCode\<close>, \<open>message\<close>, \<open>retryAfter\<close>) and the status it is thrown with.
\<close>

datatype http_exception =
    NotFoundException string
  | ConflictException string
  | BadRequestException string
  | UnauthorizedException string
  | HttpException nat string int nat

fun getStatus :: "http_exception \<Rightarrow> nat" where
  "getStatus (NotFoundException _) = 404"
| "getStatus (ConflictException _) = 409"
| "getStatus (BadRequestException _) = 400"
| "getStatus (UnauthorizedException _) = 401"
| "getStatus (HttpException _ _ _ st) = st"

definition TOO_MANY_REQUESTS :: nat where
  "TOO_MANY_REQUESTS = 429"

section \<open>Rate limiter (rate-limit.middleware.ts)\<close>

text \<open>
  \<open>Date.now()\<close> is an integer number of milliseconds; it is an explicit argument of
  \<open>use\<close>. The class instance is a record of its three fields; \<open>requests\<close> is the
  \<open>Map\<close> from client identifier to record. A header of an incoming request is absent,
  one string, or an array of strings; \<open>req.ip\<close> and \<open>req.socket.remoteAddress\<close> are a
  string or undefined. An identifier is \<open>None\<close> when the source returns \<open>undefined\<close>
  (the first entry of an empty array).
\<close>

record RateLimitRecord =
  count :: int
  firstRequest :: int

datatype header_value = Single string | Multiple "string list"

record request =
  x_forwarded_for :: "header_value option"
  ip :: "string option"
  remoteAddress :: "string option"

record RateLimitMiddleware =
  requests :: "string option \<rightharpoonup> RateLimitRecord"
  windowMs :: int
  maxRequests :: int

definition new_RateLimitMiddleware :: RateLimitMiddleware where
  "new_RateLimitMiddleware =
     \<lparr>requests = Map.empty, windowMs = 60 * 1000, maxRequests = 100\<rparr>"

text \<open>\<open>s.split(',')\<close>: the pieces of \<open>s\<close> between commas; never an empty array.\<close>

fun split_comma :: "string \<Rightarrow> string list" where
  "split_comma [] = [[]]"
| "split_comma (c # cs) =
     (if c = CHR '','' then [] # split_comma cs
      else (case split_comma cs of
              [] \<Rightarrow> [[c]]
            | p # ps \<Rightarrow> (c # p) # ps))"

text \<open>\<open>xs[0]\<close> of a JavaScript array: \<open>undefined\<close> when the array is empty.\<close>

fun first_entry :: "'a list \<Rightarrow> 'a option" where
  "first_entry [] = None"
| "first_entry (x # _) = Some x"

text \<open>
  \<open>a || b\<close> on values that are a string or undefined: \<open>a\<close> unless it is falsy
  (undefined or the empty string).
\<close>

definition truthy_str :: "string option \<Rightarrow> bool" where
  "truthy_str v = (case v of None \<Rightarrow> False | Some s \<Rightarrow> s \<noteq> [])"

definition or_else :: "string option \<Rightarrow> string option \<Rightarrow> string option" where
  "or_else a b = (if truthy_str a then a else b)"

definition truthy_header :: "header_value option \<Rightarrow> bool" where
  "truthy_header h =
     (case h of None \<Rightarrow> False | Some (Single s) \<Rightarrow> s \<noteq> [] | Some (Multiple _) \<Rightarrow> True)"

definition getClientId :: "request \<Rightarrow> string option" where
  "getClientId req =
     (let forwarded = x_forwarded_for req in
      if truthy_header forwarded then
        (case forwarded of
           Some (Multiple xs) \<Rightarrow> first_entry xs
         | Some (Single s) \<Rightarrow> first_entry (split_comma s)
         | None \<Rightarrow> None)
      else or_else (or_else (ip req) (remoteAddress req)) (Some ''unknown''))"

text \<open>\<open>Math.ceil(x / 1000)\<close> for an integer \<open>x\<close>.\<close>

definition ceil_div :: "int \<Rightarrow> int \<Rightarrow> int" where
  "ceil_div x d = - ((- x) div d)"

record rate_limit_headers =
  X_RateLimit_Limit :: int
  X_RateLimit_Remaining :: int
  X_RateLimit_Reset :: int
  Retry_After :: "int option"

record use_result =
  middleware :: RateLimitMiddleware
  headers :: rate_limit_headers
  outcome :: "http_exception + unit"

text \<open>
  \<open>use\<close>: the record of the client is created, reset or incremented (the stored object
  is mutated in place, so the map holds the new record), the three headers are set, and
  the request is passed on (\<open>Inr ()\<close>, the call of \<open>next\<close>) or refused with status 429.
  \<open>X-RateLimit-Reset\<close> is kept as the millisecond timestamp the source formats.
\<close>

definition use :: "RateLimitMiddleware \<Rightarrow> request \<Rightarrow> int \<Rightarrow> use_result" where
  "use mw req now =
     (let clientId = getClientId req;
          record =
            (case requests mw clientId of
               None \<Rightarrow> \<lparr>count = 1, firstRequest = now\<rparr>
             | Some r \<Rightarrow>
                 if now - firstRequest r > windowMs mw
                 then r\<lparr>count := 1, firstRequest := now\<rparr>
                 else r\<lparr>count := count r + 1\<rparr>);
          mw' = mw\<lparr>requests := (requests mw)(clientId \<mapsto> record)\<rparr>;
          remaining = max 0 (maxRequests mw - count record);
          resetTime = firstRequest record + windowMs mw;
          hs = \<lparr>X_RateLimit_Limit = maxRequests mw,
                X_RateLimit_Remaining = remaining,
                X_RateLimit_Reset = resetTime,
                Retry_After = None\<rparr>
      in if count record > maxRequests mw then
           (let retryAfter = ceil_div (firstRequest record + windowMs mw - now) 1000
            in \<lparr>middleware = mw',
                headers = hs\<lparr>Retry_After := Some retryAfter\<rparr>,
                outcome = Inl (HttpException TOO_MANY_REQUESTS
                                 ''Too many requests. Please try again later.''
                                 retryAfter TOO_MANY_REQUESTS)\<rparr>)
         else \<lparr>middleware = mw', headers = hs, outcome = Inr ()\<rparr>)"

text \<open>A sequence of requests, each with the time it arrives at, served in order.\<close>

fun run :: "RateLimitMiddleware \<Rightarrow> (request \<times> int) list \<Rightarrow> RateLimitMiddleware" where
  "run mw [] = mw"
| "run mw ((req, now) # rest) = run (middleware (use mw req now)) rest"

definition from_client :: "string option \<Rightarrow> (request \<times> int) \<Rightarrow> bool" where
  "from_client c x = (getClientId (fst x) = c)"

definition request_from :: "string \<Rightarrow> request" where
  "request_from addr = \<lparr>x_forwarded_for = None, ip = Some addr, remoteAddress = None\<rparr>"

subsection \<open>The client identifier in the words of the specification\<close>

text \<open>
  The identifier as the specification words it: the first comma-separated value of the
  forwarded-for header, trimmed. \<open>trim\<close> is \<open>String.prototype.trim\<close> on ASCII white space.
\<close>

definition is_space :: "char \<Rightarrow> bool" where
  "is_space c = (c \<in> set [CHR '' '', CHR 0x09, CHR 0x0A, CHR 0x0B, CHR 0x0C, CHR 0x0D])"

definition trim :: "string \<Rightarrow> string" where
  "trim s = rev (dropWhile is_space (rev (dropWhile is_space s)))"

definition spec_getClientId :: "request \<Rightarrow> string option" where
  "spec_getClientId req =
     (let forwarded = x_forwarded_for req in
      if truthy_header forwarded then
        (case forwarded of
           Some (Multiple xs) \<Rightarrow> map_option trim (first_entry xs)
         | Some (Single s) \<Rightarrow> map_option trim (first_entry (split_comma s))
         | None \<Rightarrow> None)
      else or_else (or_else (ip req) (remoteAddress req)) (Some ''unknown''))"

section \<open>JavaScript objects\<close>

text \<open>
  A user object is what it is at run time: a finite map from property names to values.
  A property the object does not have reads as \<open>undefined\<close>, here \<open>None\<close>. Selecting
  columns, the spread \<open>{...a, p: v}\<close>, \<open>Object.assign\<close> and the destructuring
  \<open>{password: _, ...rest}\<close> are then operations on maps, and whether a returned object
  has a \<open>password\<close> property is a fact about its domain.
\<close>

datatype jsval = VNum int | VStr string | VBool bool | VNull

type_synonym obj = "string \<rightharpoonup> jsval"

text \<open>Truthiness of a property read, as \<open>if (x)\<close> and \<open>!x\<close> test it.\<close>

fun truthy :: "jsval option \<Rightarrow> bool" where
  "truthy None = False"
| "truthy (Some (VNum n)) = (n \<noteq> 0)"
| "truthy (Some (VStr s)) = (s \<noteq> [])"
| "truthy (Some (VBool b)) = b"
| "truthy (Some VNull) = False"

datatype UserRole = USER | ADMIN | MODERATOR

fun role_value :: "UserRole \<Rightarrow> string" where
  "role_value USER = ''user''"
| "role_value ADMIN = ''admin''"
| "role_value MODERATOR = ''moderator''"

section \<open>Role guard (roles.guard.ts)\<close>

text \<open>
  The execution context holds what the guard reads: the \<open>roles\<close> metadata of the route
  handler and of the controller class (absent without a \<open>@Roles\<close> decorator) and
  \<open>request.user\<close>. \<open>getAllAndOverride\<close> is the framework's reflector: the first
  metadata value that is not undefined, in the order of the targets given.
\<close>

record ExecutionContext =
  handler_roles :: "UserRole list option"
  class_roles :: "UserRole list option"
  request_user :: "obj option"

fun getAllAndOverride :: "'a option list \<Rightarrow> 'a option" where
  "getAllAndOverride [] = None"
| "getAllAndOverride (Some v # _) = Some v"
| "getAllAndOverride (None # targets) = getAllAndOverride targets"

text \<open>\<open>requiredRoles.includes(v)\<close>: some element is the value \<open>v\<close>.\<close>

definition array_includes :: "UserRole list \<Rightarrow> jsval option \<Rightarrow> bool" where
  "array_includes roles v = (v \<in> set (map (\<lambda>r. Some (VStr (role_value r))) roles))"

definition canActivate :: "ExecutionContext \<Rightarrow> bool" where
  "canActivate context =
     (let requiredRoles = getAllAndOverride [handler_roles context, class_roles context] in
      case requiredRoles of
        None \<Rightarrow> True
      | Some roles \<Rightarrow>
          if length roles = 0 then True
          else (case request_user context of
                  None \<Rightarrow> False
                | Some user \<Rightarrow> array_includes roles (user ''role'')))"

section \<open>Template literals\<close>

text \<open>\<open>`${n}`\<close> for an integer \<open>n\<close>: its decimal digits, with a minus sign when negative.\<close>

definition digit_char :: "nat \<Rightarrow> char" where
  "digit_char d = ''0123456789'' ! d"

function show_nat :: "nat \<Rightarrow> string" where
  "show_nat n = (if n < 10 then [digit_char n] else show_nat (n div 10) @ [digit_char (n mod 10)])"
  by pat_completeness auto
termination
  by (relation "measure (\<lambda>n. n)") auto

declare show_nat.simps [simp del]

definition show_int :: "int \<Rightarrow> string" where
  "show_int i = (if i < 0 then CHR ''-'' # show_nat (nat (- i)) else show_nat (nat i))"

section \<open>Users (user.entity.ts, users.service.ts)\<close>

text \<open>
  A row of the \<open>users\<close> table has every column, with the type the entity declares; it is
  also the full entity the repository returns when no column list is given. Time stamps
  are milliseconds. The \<open>products\<close> relation that \<open>findOne\<close> loads is left out: no
  operation below reads it. An object that may lack properties (a partial selection, the
  rest of a destructuring) is a map, \<open>row_obj\<close> giving the object of a full entity.
\<close>

record User =
  uid :: int
  email :: string
  password :: string
  firstName :: string
  lastName :: string
  role :: UserRole
  isActive :: bool
  phone :: "string option"
  createdAt :: int
  updatedAt :: int

definition row_obj :: "User \<Rightarrow> obj" where
  "row_obj u =
     [''id'' \<mapsto> VNum (uid u),
      ''email'' \<mapsto> VStr (email u),
      ''password'' \<mapsto> VStr (password u),
      ''firstName'' \<mapsto> VStr (firstName u),
      ''lastName'' \<mapsto> VStr (lastName u),
      ''role'' \<mapsto> VStr (role_value (role u)),
      ''isActive'' \<mapsto> VBool (isActive u),
      ''phone'' \<mapsto> (case phone u of None \<Rightarrow> VNull | Some p \<Rightarrow> VStr p),
      ''createdAt'' \<mapsto> VNum (createdAt u),
      ''updatedAt'' \<mapsto> VNum (updatedAt u)]"

text \<open>The request bodies, as the validation pipe hands them over.\<close>

record CreateUserDto =
  c_email :: string
  c_password :: string
  c_firstName :: string
  c_lastName :: string
  c_phone :: "string option"
  c_role :: "UserRole option"

record UpdateUserDto =
  u_email :: "string option"
  u_firstName :: "string option"
  u_lastName :: "string option"
  u_phone :: "string option"
  u_role :: "UserRole option"
  u_isActive :: "bool option"

text \<open>The own properties of a request body: an optional field that was not sent is absent.\<close>

definition own_prop :: "string \<Rightarrow> jsval option \<Rightarrow> obj" where
  "own_prop k v = (case v of None \<Rightarrow> Map.empty | Some x \<Rightarrow> [k \<mapsto> x])"

definition props_CreateUserDto :: "CreateUserDto \<Rightarrow> obj" where
  "props_CreateUserDto d =
     [''email'' \<mapsto> VStr (c_email d),
      ''password'' \<mapsto> VStr (c_password d),
      ''firstName'' \<mapsto> VStr (c_firstName d),
      ''lastName'' \<mapsto> VStr (c_lastName d)]
     ++ own_prop ''phone'' (map_option VStr (c_phone d))
     ++ own_prop ''role'' (map_option (\<lambda>r. VStr (role_value r)) (c_role d))"

definition props_UpdateUserDto :: "UpdateUserDto \<Rightarrow> obj" where
  "props_UpdateUserDto d =
     own_prop ''email'' (map_option VStr (u_email d))
     ++ own_prop ''firstName'' (map_option VStr (u_firstName d))
     ++ own_prop ''lastName'' (map_option VStr (u_lastName d))
     ++ own_prop ''phone'' (map_option VStr (u_phone d))
     ++ own_prop ''role'' (map_option (\<lambda>r. VStr (role_value r)) (u_role d))
     ++ own_prop ''isActive'' (map_option VBool (u_isActive d))"

subsection \<open>The repository\<close>

text \<open>
  The table is the list of its rows with the counter of the generated key. The
  repository is the object-relational mapper's; what the service uses of it is modelled
  here. \<open>findOne\<close> with a \<open>where\<close> clause gives the first matching row, \<open>select\<close> keeps
  the listed properties of an entity, \<open>save\<close> updates the row that has the entity's id
  with the properties the entity has, or inserts a new row with the column defaults of
  the entity declaration, and gives back the entity with the generated columns set.
\<close>

record UserRepository =
  rows :: "User list"
  auto_increment :: int

definition select :: "string list \<Rightarrow> obj \<Rightarrow> obj" where
  "select columns entity = entity |` set columns"

fun role_of_value :: "string \<Rightarrow> UserRole option" where
  "role_of_value s =
     (if s = ''user'' then Some USER
      else if s = ''admin'' then Some ADMIN
      else if s = ''moderator'' then Some MODERATOR
      else None)"

definition str_column :: "obj \<Rightarrow> string \<Rightarrow> string \<Rightarrow> string" where
  "str_column entity k old = (case entity k of Some (VStr s) \<Rightarrow> s | _ \<Rightarrow> old)"

definition merge_columns :: "obj \<Rightarrow> User \<Rightarrow> User" where
  "merge_columns entity row =
     row\<lparr>email := str_column entity ''email'' (email row),
         password := str_column entity ''password'' (password row),
         firstName := str_column entity ''firstName'' (firstName row),
         lastName := str_column entity ''lastName'' (lastName row),
         role := (case entity ''role'' of
                    Some (VStr s) \<Rightarrow> (case role_of_value s of Some r \<Rightarrow> r | None \<Rightarrow> role row)
                  | _ \<Rightarrow> role row),
         isActive := (case entity ''isActive'' of Some (VBool b) \<Rightarrow> b | _ \<Rightarrow> isActive row),
         phone := (case entity ''phone'' of
                     Some (VStr s) \<Rightarrow> Some s
                   | Some VNull \<Rightarrow> None
                   | _ \<Rightarrow> phone row)\<rparr>"

definition column_defaults :: "int \<Rightarrow> int \<Rightarrow> User" where
  "column_defaults new_id now =
     \<lparr>uid = new_id, email = [], password = [], firstName = [], lastName = [],
      role = USER, isActive = True, phone = None, createdAt = now, updatedAt = now\<rparr>"

definition save :: "UserRepository \<Rightarrow> obj \<Rightarrow> int \<Rightarrow> UserRepository \<times> obj" where
  "save repo entity now =
     (case entity ''id'' of
        Some (VNum i) \<Rightarrow>
          if \<exists>r \<in> set (rows repo). uid r = i then
            (repo\<lparr>rows := map (\<lambda>r. if uid r = i
                                    then (merge_columns entity r)\<lparr>updatedAt := now\<rparr>
                                    else r) (rows repo)\<rparr>,
             entity(''updatedAt'' \<mapsto> VNum now))
          else
            (let row = merge_columns entity (column_defaults i now)
             in (repo\<lparr>rows := rows repo @ [row]\<rparr>, entity ++ row_obj row))
      | _ \<Rightarrow>
          (let row = merge_columns entity (column_defaults (auto_increment repo) now)
           in (repo\<lparr>rows := rows repo @ [row],
                    auto_increment := auto_increment repo + 1\<rparr>,
               entity ++ row_obj row)))"

text \<open>\<open>ORDER BY createdAt DESC\<close>: a stable insertion sort on a comparison.\<close>

fun insert_by :: "('a \<Rightarrow> 'a \<Rightarrow> bool) \<Rightarrow> 'a \<Rightarrow> 'a list \<Rightarrow> 'a list" where
  "insert_by le x [] = [x]"
| "insert_by le x (y # ys) = (if le x y then x # y # ys else y # insert_by le x ys)"

definition order_by :: "('a \<Rightarrow> 'a \<Rightarrow> bool) \<Rightarrow> 'a list \<Rightarrow> 'a list" where
  "order_by le xs = foldr (insert_by le) xs []"

subsection \<open>The service\<close>

record Env =
  bcrypt_hash :: "string \<Rightarrow> int \<Rightarrow> string"
  bcrypt_compare :: "string \<Rightarrow> string \<Rightarrow> bool"
  BCRYPT_SALT_ROUNDS :: "int option"

text \<open>\<open>configService.get('BCRYPT_SALT_ROUNDS') || 10\<close>.\<close>

definition saltRounds :: "Env \<Rightarrow> int" where
  "saltRounds env =
     (case BCRYPT_SALT_ROUNDS env of None \<Rightarrow> 10 | Some n \<Rightarrow> if n = 0 then 10 else n)"

definition public_columns :: "string list" where
  "public_columns =
     [''id'', ''email'', ''firstName'', ''lastName'', ''role'', ''isActive'', ''phone'',
      ''createdAt'', ''updatedAt'']"

definition create ::
  "Env \<Rightarrow> UserRepository \<Rightarrow> CreateUserDto \<Rightarrow> int \<Rightarrow> http_exception + UserRepository \<times> obj"
where
  "create env repo createUserDto now =
     (let existingUser = find (\<lambda>r. email r = c_email createUserDto) (rows repo) in
      if existingUser \<noteq> None then Inl (ConflictException ''Email already exists'')
      else
        (let hashedPassword = bcrypt_hash env (c_password createUserDto) (saltRounds env);
             user = (props_CreateUserDto createUserDto)(''password'' \<mapsto> VStr hashedPassword);
             (repo', savedUser) = save repo user now;
             userWithoutPassword = savedUser(''password'' := None)
         in Inr (repo', userWithoutPassword)))"

definition findAll :: "UserRepository \<Rightarrow> obj list" where
  "findAll repo =
     map (\<lambda>r. select public_columns (row_obj r))
       (order_by (\<lambda>a b. createdAt a \<ge> createdAt b) (rows repo))"

definition findOne :: "UserRepository \<Rightarrow> int \<Rightarrow> http_exception + obj" where
  "findOne repo i =
     (case find (\<lambda>r. uid r = i) (rows repo) of
        None \<Rightarrow> Inl (NotFoundException (''User with ID '' @ show_int i @ '' not found''))
      | Some r \<Rightarrow> Inr (select public_columns (row_obj r)))"

definition findByEmail :: "UserRepository \<Rightarrow> string \<Rightarrow> User option" where
  "findByEmail repo e = find (\<lambda>r. email r = e) (rows repo)"

definition update ::
  "UserRepository \<Rightarrow> int \<Rightarrow> UpdateUserDto \<Rightarrow> int \<Rightarrow> http_exception + UserRepository \<times> obj"
where
  "update repo i updateUserDto now =
     (case findOne repo i of
        Inl e \<Rightarrow> Inl e
      | Inr user \<Rightarrow>
          (let emailTaken =
                 (case u_email updateUserDto of
                    None \<Rightarrow> False
                  | Some e \<Rightarrow>
                      e \<noteq> [] \<and> Some (VStr e) \<noteq> user ''email'' \<and>
                      find (\<lambda>r. email r = e) (rows repo) \<noteq> None)
           in if emailTaken then Inl (ConflictException ''Email already in use'')
              else
                (let user' = user ++ props_UpdateUserDto updateUserDto;
                     (repo', updatedUser) = save repo user' now;
                     userWithoutPassword = updatedUser(''password'' := None)
                 in Inr (repo', userWithoutPassword))))"

definition remove :: "UserRepository \<Rightarrow> int \<Rightarrow> int \<Rightarrow> http_exception + UserRepository" where
  "remove repo i now =
     (case findOne repo i of
        Inl e \<Rightarrow> Inl e
      | Inr user \<Rightarrow> Inr (fst (save repo (user(''isActive'' \<mapsto> VBool False)) now)))"

section \<open>Authentication (auth.service.ts, local.strategy.ts, jwt.strategy.ts)\<close>

text \<open>
  \<open>validateUser\<close> reads the full entity that \<open>findByEmail\<close> returns and gives back either
  \<open>null\<close> (\<open>None\<close>) or the entity without its \<open>password\<close> property. \<open>validateJwtPayload\<close>
  calls \<open>findOne\<close> of the users service, which returns an object or throws; the exception
  propagates to the caller. The source's test \<open>if (!user)\<close> after that call has no branch
  here: the value it tests is always an object.
\<close>

record JwtPayload =
  sub :: int
  jwt_email :: string
  jwt_role :: string

definition validateUser :: "Env \<Rightarrow> UserRepository \<Rightarrow> string \<Rightarrow> string \<Rightarrow> obj option" where
  "validateUser env repo e pw =
     (case findByEmail repo e of
        None \<Rightarrow> None
      | Some user \<Rightarrow>
          if \<not> isActive user then None
          else if \<not> bcrypt_compare env pw (password user) then None
          else Some ((row_obj user)(''password'' := None)))"

definition LocalStrategy_validate ::
  "Env \<Rightarrow> UserRepository \<Rightarrow> string \<Rightarrow> string \<Rightarrow> http_exception + obj"
where
  "LocalStrategy_validate env repo e pw =
     (case validateUser env repo e pw of
        None \<Rightarrow> Inl (UnauthorizedException ''Invalid email or password'')
      | Some user \<Rightarrow> Inr user)"

definition validateJwtPayload :: "UserRepository \<Rightarrow> JwtPayload \<Rightarrow> http_exception + obj" where
  "validateJwtPayload repo payload =
     (case findOne repo (sub payload) of
        Inl e \<Rightarrow> Inl e
      | Inr user \<Rightarrow>
          if \<not> truthy (user ''isActive'')
          then Inl (UnauthorizedException ''User account is deactivated'')
          else Inr user)"

definition JwtStrategy_validate :: "UserRepository \<Rightarrow> JwtPayload \<Rightarrow> http_exception + obj" where
  "JwtStrategy_validate repo payload =
     (case validateJwtPayload repo payload of
        Inl e \<Rightarrow> Inl e
      | Inr user \<Rightarrow> Inr user)"

section \<open>Sample users\<close>

definition demo_env :: Env where
  "demo_env =
     \<lparr>bcrypt_hash = (\<lambda>p n. ''$2b$'' @ p),
      bcrypt_compare = (\<lambda>p h. h = ''$2b$'' @ p),
      BCRYPT_SALT_ROUNDS = None\<rparr>"

definition ada :: User where
  "ada = \<lparr>uid = 1, email = ''ada@example.com'', password = ''$2b$Secret123'',
          firstName = ''Ada'', lastName = ''Lovelace'', role = ADMIN, isActive = True,
          phone = None, createdAt = 1000, updatedAt = 1000\<rparr>"

definition bob :: User where
  "bob = \<lparr>uid = 2, email = ''bob@example.com'', password = ''$2b$Hunter22'',
          firstName = ''Bob'', lastName = ''Builder'', role = USER, isActive = False,
          phone = Some ''555-0100'', createdAt = 2000, updatedAt = 3000\<rparr>"

definition demo_users :: UserRepository where
  "demo_users = \<lparr>rows = [ada, bob], auto_increment = 3\<rparr>"

definition eve :: CreateUserDto where
  "eve = \<lparr>c_email = ''eve@example.com'', c_password = ''Passw0rd'', c_firstName = ''Eve'',
          c_lastName = ''Moneypenny'', c_phone = None, c_role = None\<rparr>"

definition rename_ada :: UpdateUserDto where
  "rename_ada = \<lparr>u_email = None, u_firstName = Some ''Augusta'', u_lastName = None,
                 u_phone = None, u_role = None, u_isActive = None\<rparr>"

section \<open>Products (product.entity.ts, query-product.dto.ts, products.service.ts)\<close>

text \<open>
  A product is a row of the \<open>products\<close> table. \<open>price\<close> is a decimal column and the
  bounds of a query are JavaScript numbers; they are rationals here. Time stamps are
  milliseconds. The \<open>createdBy\<close> relation that \<open>findOne\<close> loads is left out: no
  operation below reads it. Page and limit are taken to be integers.

  \<open>discountPercent\<close> is declared \<open>number | null\<close>, but \<open>applyDiscount\<close> assigns to it the
  value it is called with, and the controller hands over the \<open>discountPercent\<close> field of
  the request body as it arrives, with no pipe. So the field holds a value of a request
  body: absent (\<open>undefined\<close>), \<open>null\<close>, a boolean, a number, a string, an array or an
  object. A number is a finite value, an infinity or \<open>NaN\<close>. The table keeps an entity as
  the service saves it; what the mapper and the database make of a value that is not a
  finite number is not modelled.
\<close>

datatype js_number = Finite rat | PlusInfinity | MinusInfinity | NotANumber

datatype body_value =
    Undefined
  | Null
  | Bool bool
  | Number js_number
  | String string
  | Array "body_value list"
  | Object "(string \<times> body_value) list"

text \<open>
  \<open>a < b\<close> and \<open>a > b\<close> on numbers: false whenever an operand is \<open>NaN\<close>.
\<close>

fun number_less :: "js_number \<Rightarrow> js_number \<Rightarrow> bool" where
  "number_less NotANumber _ = False"
| "number_less _ NotANumber = False"
| "number_less (Finite a) (Finite b) = (a < b)"
| "number_less (Finite _) PlusInfinity = True"
| "number_less (Finite _) MinusInfinity = False"
| "number_less MinusInfinity (Finite _) = True"
| "number_less MinusInfinity PlusInfinity = True"
| "number_less MinusInfinity MinusInfinity = False"
| "number_less PlusInfinity _ = False"

text \<open>
  The number a value is compared as. For \<open>undefined\<close>, \<open>null\<close>, booleans and numbers it
  is fixed by the language. For a string, an array or an object it is the number the
  text of the value reads as, \<open>NaN\<close> when it reads as none; that reading rounds to a
  floating-point number and is the parameter \<open>reads_as\<close>.
\<close>

fun ToNumber :: "(body_value \<Rightarrow> js_number) \<Rightarrow> body_value \<Rightarrow> js_number" where
  "ToNumber reads_as Undefined = NotANumber"
| "ToNumber reads_as Null = Finite 0"
| "ToNumber reads_as (Bool b) = Finite (if b then 1 else 0)"
| "ToNumber reads_as (Number n) = n"
| "ToNumber reads_as v = reads_as v"

datatype ProductStatus = DRAFT | ACTIVE | INACTIVE | DISCONTINUED

datatype ProductCategory = ELECTRONICS | CLOTHING | FOOD | BOOKS | OTHER

record Product =
  pid :: int
  name :: string
  description :: "string option"
  price :: rat
  stock :: int
  sku :: "string option"
  category :: ProductCategory
  status :: ProductStatus
  isFeatured :: bool
  discountPercent :: body_value
  createdById :: "int option"
  createdAt_p :: int
  updatedAt_p :: int

record QueryProductDto =
  search :: "string option"
  category_q :: "ProductCategory option"
  status_q :: "ProductStatus option"
  minPrice :: "rat option"
  maxPrice :: "rat option"
  featured :: "bool option"
  inStock :: "bool option"
  page_q :: "int option"
  limit_q :: "int option"
  sortBy :: "string option"
  sortOrder :: "string option"

text \<open>
  A JavaScript number that a division of integers may give: \<open>total / limit\<close> is
  \<open>Infinity\<close> or \<open>NaN\<close> when \<open>limit\<close> is 0 (\<open>total\<close> is a count, so never negative).
  The field \<open>total\<close> of the response is \<open>total_items\<close> here.
\<close>

datatype jsnum = Num int | Infinity | NaN

definition ceil_quotient :: "int \<Rightarrow> int \<Rightarrow> jsnum" where
  "ceil_quotient n d =
     (if d = 0 then (if n = 0 then NaN else Infinity)
      else Num (- ((- n) div d)))"

fun js_less :: "int \<Rightarrow> jsnum \<Rightarrow> bool" where
  "js_less a (Num b) = (a < b)"
| "js_less a Infinity = True"
| "js_less a NaN = False"

record PaginationMeta =
  total_items :: int
  page :: int
  limit :: int
  totalPages :: jsnum
  hasNextPage :: bool
  hasPreviousPage :: bool

record PaginatedResponse =
  data :: "Product list"
  meta :: PaginationMeta

subsection \<open>The query builder\<close>

text \<open>
  The builder is the mapper's; it is modelled as the state it accumulates: the table it
  reads, the conditions added with \<open>andWhere\<close>, the ordering, and the offset and limit.
  \<open>getCount\<close> counts the rows that satisfy every condition, whatever the offset and
  limit; \<open>getMany\<close> orders those rows, skips the offset and keeps at most the limit
  (an offset or a limit below zero, which the bounds of the query exclude, counts as
  zero).
  A condition is a predicate on rows. \<open>LIKE\<close> is matched with its two wild cards
  (\<open>%\<close> any text, \<open>_\<close> any character) and \<open>LOWER\<close> folds the ASCII capitals; a
  \<open>NULL\<close> description matches nothing.

  The builder fails where the mapper and the database do: \<open>orderBy\<close> throws for a
  direction other than \<open>ASC\<close> and \<open>DESC\<close>, and the ordered query of \<open>getMany\<close> fails for a
  column the table does not have. The count drops the ordering and does not fail.
  Each of the thirteen columns has its order: strings by character code, \<open>NULL\<close>
  first, an enumeration in the order of its declaration, false before true; a discount
  that is not a finite number counts as \<open>NULL\<close>. Ties keep the order of the table.
\<close>

datatype query_error = InvalidOrderDirection string | UnknownColumn string

record QueryBuilder =
  table_rows :: "Product list"
  conditions :: "(Product \<Rightarrow> bool) list"
  ordering :: "(string \<times> string) option"
  offset_n :: "int option"
  limit_n :: "int option"

definition createQueryBuilder :: "Product list \<Rightarrow> QueryBuilder" where
  "createQueryBuilder t =
     \<lparr>table_rows = t, conditions = [], ordering = None, offset_n = None, limit_n = None\<rparr>"

definition andWhere :: "(Product \<Rightarrow> bool) \<Rightarrow> QueryBuilder \<Rightarrow> QueryBuilder" where
  "andWhere c qb = qb\<lparr>conditions := conditions qb @ [c]\<rparr>"

definition orderBy :: "string \<Rightarrow> string \<Rightarrow> QueryBuilder \<Rightarrow> query_error + QueryBuilder" where
  "orderBy column direction qb =
     (if direction \<noteq> ''ASC'' \<and> direction \<noteq> ''DESC''
      then Inl (InvalidOrderDirection direction)
      else Inr (qb\<lparr>ordering := Some (column, direction)\<rparr>))"

definition skip :: "int \<Rightarrow> QueryBuilder \<Rightarrow> QueryBuilder" where
  "skip n qb = qb\<lparr>offset_n := Some n\<rparr>"

definition take_rows :: "int \<Rightarrow> QueryBuilder \<Rightarrow> QueryBuilder" where
  "take_rows n qb = qb\<lparr>limit_n := Some n\<rparr>"

definition lower_char :: "char \<Rightarrow> char" where
  "lower_char c =
     (let n = (of_char c :: nat) in if 65 \<le> n \<and> n \<le> 90 then char_of (n + 32) else c)"

definition LOWER :: "string \<Rightarrow> string" where
  "LOWER s = map lower_char s"

fun LIKE :: "string \<Rightarrow> string \<Rightarrow> bool" where
  "LIKE s [] = (s = [])"
| "LIKE s (p # ps) =
     (if p = CHR ''%'' then
        LIKE s ps \<or> (case s of [] \<Rightarrow> False | _ # t \<Rightarrow> LIKE t (p # ps))
      else
        (case s of [] \<Rightarrow> False | c # t \<Rightarrow> (p = CHR ''_'' \<or> p = c) \<and> LIKE t ps))"

fun string_le :: "string \<Rightarrow> string \<Rightarrow> bool" where
  "string_le [] _ = True"
| "string_le (_ # _) [] = False"
| "string_le (a # as) (b # bs) =
     ((of_char a :: nat) < of_char b \<or> (a = b \<and> string_le as bs))"

fun option_le :: "('a \<Rightarrow> 'a \<Rightarrow> bool) \<Rightarrow> 'a option \<Rightarrow> 'a option \<Rightarrow> bool" where
  "option_le le None _ = True"
| "option_le le (Some _) None = False"
| "option_le le (Some a) (Some b) = le a b"

fun category_index :: "ProductCategory \<Rightarrow> nat" where
  "category_index ELECTRONICS = 1"
| "category_index CLOTHING = 2"
| "category_index FOOD = 3"
| "category_index BOOKS = 4"
| "category_index OTHER = 5"

fun status_index :: "ProductStatus \<Rightarrow> nat" where
  "status_index DRAFT = 1"
| "status_index ACTIVE = 2"
| "status_index INACTIVE = 3"
| "status_index DISCONTINUED = 4"

fun decimal_value :: "body_value \<Rightarrow> rat option" where
  "decimal_value (Number (Finite r)) = Some r"
| "decimal_value _ = None"

definition column_le :: "string \<Rightarrow> (Product \<Rightarrow> Product \<Rightarrow> bool) option" where
  "column_le =
     map_of
       [(''product.id'', \<lambda>a b. pid a \<le> pid b),
        (''product.name'', \<lambda>a b. string_le (name a) (name b)),
        (''product.description'', \<lambda>a b. option_le string_le (description a) (description b)),
        (''product.price'', \<lambda>a b. price a \<le> price b),
        (''product.stock'', \<lambda>a b. stock a \<le> stock b),
        (''product.sku'', \<lambda>a b. option_le string_le (sku a) (sku b)),
        (''product.category'',
           \<lambda>a b. category_index (category a) \<le> category_index (category b)),
        (''product.status'', \<lambda>a b. status_index (status a) \<le> status_index (status b)),
        (''product.isFeatured'', \<lambda>a b. isFeatured a \<le> isFeatured b),
        (''product.discountPercent'',
           \<lambda>a b. option_le (\<le>) (decimal_value (discountPercent a))
                                (decimal_value (discountPercent b))),
        (''product.createdById'', \<lambda>a b. option_le (\<le>) (createdById a) (createdById b)),
        (''product.createdAt'', \<lambda>a b. createdAt_p a \<le> createdAt_p b),
        (''product.updatedAt'', \<lambda>a b. updatedAt_p a \<le> updatedAt_p b)]"

definition selected :: "QueryBuilder \<Rightarrow> Product list" where
  "selected qb = filter (\<lambda>p. list_all (\<lambda>c. c p) (conditions qb)) (table_rows qb)"

definition getCount :: "QueryBuilder \<Rightarrow> int" where
  "getCount qb = int (length (selected qb))"

definition paged :: "QueryBuilder \<Rightarrow> Product list \<Rightarrow> Product list" where
  "paged qb ordered =
     (let skipped = (case offset_n qb of None \<Rightarrow> ordered | Some n \<Rightarrow> drop (nat n) ordered)
      in case limit_n qb of None \<Rightarrow> skipped | Some n \<Rightarrow> take (nat n) skipped)"

definition getMany :: "QueryBuilder \<Rightarrow> query_error + Product list" where
  "getMany qb =
     (case ordering qb of
        None \<Rightarrow> Inr (paged qb (selected qb))
      | Some (column, direction) \<Rightarrow>
          (case column_le column of
             None \<Rightarrow> Inl (UnknownColumn column)
           | Some le \<Rightarrow>
               if direction = ''ASC''
               then Inr (paged qb (order_by le (selected qb)))
               else Inr (paged qb (order_by (\<lambda>a b. le b a) (selected qb)))))"

subsection \<open>The service\<close>

definition allowedSortFields :: "string list" where
  "allowedSortFields = [''name'', ''price'', ''createdAt'', ''updatedAt'', ''stock'']"

definition only_if :: "bool \<Rightarrow> (QueryBuilder \<Rightarrow> QueryBuilder) \<Rightarrow> QueryBuilder \<Rightarrow> QueryBuilder" where
  "only_if b step qb = (if b then step qb else qb)"

text \<open>
  \<open>findAll\<close> of the products service. Its first part, the six filters that add their
  conditions to the builder when the query has them, is \<open>filters\<close>; the rest (defaults,
  ordering, count, pagination, metadata) is \<open>findAll_products\<close>. What the builder throws
  is not caught, so the listing fails with it.
\<close>

definition filters :: "QueryProductDto \<Rightarrow> QueryBuilder \<Rightarrow> QueryBuilder" where
  "filters query queryBuilder =
     (let queryBuilder =
            (case search query of
               None \<Rightarrow> queryBuilder
             | Some s \<Rightarrow>
                 only_if (s \<noteq> [])
                   (andWhere (\<lambda>p.
                      LIKE (LOWER (name p)) (LOWER (''%'' @ s @ ''%'')) \<or>
                      (case description p of
                         None \<Rightarrow> False
                       | Some d \<Rightarrow> LIKE (LOWER d) (LOWER (''%'' @ s @ ''%'')))))
                   queryBuilder);
          queryBuilder =
            (case category_q query of
               None \<Rightarrow> queryBuilder
             | Some c \<Rightarrow> andWhere (\<lambda>p. category p = c) queryBuilder);
          queryBuilder =
            (case status_q query of
               None \<Rightarrow> queryBuilder
             | Some s \<Rightarrow> andWhere (\<lambda>p. status p = s) queryBuilder);
          queryBuilder =
            (case (minPrice query, maxPrice query) of
               (Some lo, Some hi) \<Rightarrow> andWhere (\<lambda>p. lo \<le> price p \<and> price p \<le> hi) queryBuilder
             | (Some lo, None) \<Rightarrow> andWhere (\<lambda>p. price p \<ge> lo) queryBuilder
             | (None, Some hi) \<Rightarrow> andWhere (\<lambda>p. price p \<le> hi) queryBuilder
             | (None, None) \<Rightarrow> queryBuilder);
          queryBuilder =
            (case featured query of
               None \<Rightarrow> queryBuilder
             | Some f \<Rightarrow> andWhere (\<lambda>p. isFeatured p = f) queryBuilder)
      in only_if (inStock query = Some True)
           (\<lambda>qb. andWhere (\<lambda>p. status p = ACTIVE) (andWhere (\<lambda>p. stock p > 0) qb))
           queryBuilder)"

definition findAll_products ::
  "Product list \<Rightarrow> QueryProductDto \<Rightarrow> query_error + PaginatedResponse"
where
  "findAll_products t query =
     (let page = (case page_q query of None \<Rightarrow> 1 | Some n \<Rightarrow> n);
          limit = (case limit_q query of None \<Rightarrow> 10 | Some n \<Rightarrow> n);
          sortBy = (case sortBy query of None \<Rightarrow> ''createdAt'' | Some s \<Rightarrow> s);
          sortOrder = (case sortOrder query of None \<Rightarrow> ''DESC'' | Some s \<Rightarrow> s);
          queryBuilder = filters query (createQueryBuilder t);
          safeSortBy = (if sortBy \<in> set allowedSortFields then sortBy else ''createdAt'');
          safeSortOrder = (if sortOrder = ''ASC'' then ''ASC'' else ''DESC'')
      in case orderBy (''product.'' @ safeSortBy) safeSortOrder queryBuilder of
           Inl e \<Rightarrow> Inl e
         | Inr queryBuilder \<Rightarrow>
             (let total_n = getCount queryBuilder;
                  skip_n = (page - 1) * limit;
                  queryBuilder = take_rows limit (skip skip_n queryBuilder)
              in case getMany queryBuilder of
                   Inl e \<Rightarrow> Inl e
                 | Inr products \<Rightarrow>
                     (let totalPages = ceil_quotient total_n limit
                      in Inr \<lparr>data = products,
                              meta = \<lparr>total_items = total_n, page = page, limit = limit,
                                      totalPages = totalPages,
                                      hasNextPage = js_less page totalPages,
                                      hasPreviousPage = (page > 1)\<rparr>\<rparr>)))"

text \<open>
  The rows a query asks for, as one predicate on a row: every filter the query has
  holds of it. The properties of the listing are stated with it.
\<close>

definition matches_query :: "QueryProductDto \<Rightarrow> Product \<Rightarrow> bool" where
  "matches_query query p =
     ((case search query of
         None \<Rightarrow> True
       | Some s \<Rightarrow>
           s = [] \<or> LIKE (LOWER (name p)) (LOWER (''%'' @ s @ ''%'')) \<or>
           (case description p of
              None \<Rightarrow> False
            | Some d \<Rightarrow> LIKE (LOWER d) (LOWER (''%'' @ s @ ''%''))))
      \<and> (case category_q query of None \<Rightarrow> True | Some c \<Rightarrow> category p = c)
      \<and> (case status_q query of None \<Rightarrow> True | Some s \<Rightarrow> status p = s)
      \<and> (case minPrice query of None \<Rightarrow> True | Some lo \<Rightarrow> lo \<le> price p)
      \<and> (case maxPrice query of None \<Rightarrow> True | Some hi \<Rightarrow> price p \<le> hi)
      \<and> (case featured query of None \<Rightarrow> True | Some f \<Rightarrow> isFeatured p = f)
      \<and> (if inStock query = Some True then stock p > 0 \<and> status p = ACTIVE else True))"

text \<open>
  \<open>findOne\<close> gives the row with the id or throws. \<open>save\<close> writes the entity over the row
  that has its id and refreshes \<open>updatedAt\<close>; an entity equal to its row is left as it
  is. The operations that write return the table with their outcome, so that a failure
  shows the table it leaves. The range test of \<open>applyDiscount\<close> compares the value it is
  given as a number, as \<open><\<close> and \<open>>\<close> do with a number on the other side.
\<close>

definition findOne_product :: "Product list \<Rightarrow> int \<Rightarrow> http_exception + Product" where
  "findOne_product t i =
     (case find (\<lambda>p. pid p = i) t of
        None \<Rightarrow> Inl (NotFoundException (''Product with ID '' @ show_int i @ '' not found''))
      | Some product \<Rightarrow> Inr product)"

definition save_product :: "Product list \<Rightarrow> Product \<Rightarrow> int \<Rightarrow> Product list \<times> Product" where
  "save_product t product now =
     (case find (\<lambda>p. pid p = pid product) t of
        None \<Rightarrow> (let saved = product\<lparr>updatedAt_p := now\<rparr> in (t @ [saved], saved))
      | Some old \<Rightarrow>
          if old = product then (t, product)
          else (let saved = product\<lparr>updatedAt_p := now\<rparr>
                in (map (\<lambda>p. if pid p = pid product then saved else p) t, saved)))"

definition updateStock ::
  "Product list \<Rightarrow> int \<Rightarrow> int \<Rightarrow> int \<Rightarrow> Product list \<times> (http_exception + Product)"
where
  "updateStock t i quantity now =
     (case findOne_product t i of
        Inl e \<Rightarrow> (t, Inl e)
      | Inr product \<Rightarrow>
          (let newStock = stock product + quantity in
           if newStock < 0 then
             (t, Inl (BadRequestException
                        (''Insufficient stock. Available: '' @ show_int (stock product) @
                         '', Requested: '' @ show_int (abs quantity))))
           else
             (let product = product\<lparr>stock := newStock\<rparr>;
                  (t', saved) = save_product t product now
              in (t', Inr saved))))"

definition applyDiscount ::
  "(body_value \<Rightarrow> js_number) \<Rightarrow> Product list \<Rightarrow> int \<Rightarrow> body_value \<Rightarrow> int
     \<Rightarrow> Product list \<times> (http_exception + Product)"
where
  "applyDiscount reads_as t i discount now =
     (if number_less (ToNumber reads_as discount) (Finite 0) \<or>
         number_less (Finite 100) (ToNumber reads_as discount)
      then (t, Inl (BadRequestException ''Discount must be between 0 and 100''))
      else
        (case findOne_product t i of
           Inl e \<Rightarrow> (t, Inl e)
         | Inr product \<Rightarrow>
             if status product \<noteq> ACTIVE
             then (t, Inl (BadRequestException ''Cannot apply discount to inactive products''))
             else
               (let product = product\<lparr>discountPercent := discount\<rparr>;
                    (t', saved) = save_product t product now
                in (t', Inr saved))))"

section \<open>Sample products\<close>

text \<open>
  Twenty-five products, created one after the other; every fifth is a book. And a
  shelf of three with their own names and prices.
\<close>

definition item :: "int \<Rightarrow> Product" where
  "item i =
     \<lparr>pid = i, name = ''Item '' @ show_int i, description = None, price = 10, stock = 3,
      sku = None, category = (if i mod 5 = 0 then BOOKS else OTHER), status = DRAFT,
      isFeatured = False, discountPercent = Null, createdById = None,
      createdAt_p = 1000 * i, updatedAt_p = 1000 * i\<rparr>"

definition pear :: Product where
  "pear = (item 1)\<lparr>name := ''pear'', price := 3\<rparr>"

definition apple :: Product where
  "apple = (item 2)\<lparr>name := ''apple'', price := 2\<rparr>"

definition fig :: Product where
  "fig = (item 3)\<lparr>name := ''fig'', price := 5\<rparr>"

definition shelf :: "Product list" where
  "shelf = [pear, apple, fig]"

definition active_item :: "int \<Rightarrow> Product" where
  "active_item i = (item i)\<lparr>status := ACTIVE\<rparr>"

definition catalogue :: "Product list" where
  "catalogue = map item [1..25]"

definition default_query :: QueryProductDto where
  "default_query =
     \<lparr>search = None, category_q = None, status_q = None, minPrice = None, maxPrice = None,
      featured = None, inStock = None, page_q = None, limit_q = None,
      sortBy = None, sortOrder = None\<rparr>"

section \<open>Properties of the rate limiter\<close>

text \<open>
  A request changes neither the configuration nor the record of any other client.
\<close>

lemma use_config:
  "windowMs (middleware (use mw req now)) = windowMs mw"
  "maxRequests (middleware (use mw req now)) = maxRequests mw"
  by (simp_all add: use_def Let_def)

lemma use_other_client:
  "getClientId req \<noteq> c \<Longrightarrow> requests (middleware (use mw req now)) c = requests mw c"
  by (simp add: use_def Let_def)

lemma use_in_window:
  "getClientId req = c \<Longrightarrow> requests mw c = Some r \<Longrightarrow> now - firstRequest r \<le> windowMs mw \<Longrightarrow>
   requests (middleware (use mw req now)) c = Some (r\<lparr>count := count r + 1\<rparr>)"
  by (simp add: use_def Let_def)

lemma use_new_window:
  "getClientId req = c \<Longrightarrow>
   requests mw c = None \<or> (\<exists>r. requests mw c = Some r \<and> now - firstRequest r > windowMs mw) \<Longrightarrow>
   requests (middleware (use mw req now)) c = Some \<lparr>count = 1, firstRequest = now\<rparr>"
  by (elim disjE exE conjE) (simp_all add: use_def Let_def)

lemma run_config:
  "windowMs (run mw xs) = windowMs mw \<and> maxRequests (run mw xs) = maxRequests mw"
  by (induction mw xs rule: run.induct) (simp_all add: use_config)

lemma run_record:
  "requests mw c = Some r \<Longrightarrow>
   \<forall>x \<in> set xs. from_client c x \<longrightarrow> snd x - firstRequest r \<le> windowMs mw \<Longrightarrow>
   requests (run mw xs) c = Some (r\<lparr>count := count r + int (length (filter (from_client c) xs))\<rparr>)"
proof (induction mw xs arbitrary: r rule: run.induct)
  case (1 mw)
  then show ?case by simp
next
  case (2 mw req now rest)
  show ?case
  proof (cases "getClientId req = c")
    case True
    have inw: "now - firstRequest r \<le> windowMs mw"
      using "2.prems"(2) True by (simp add: from_client_def)
    have st: "requests (middleware (use mw req now)) c = Some (r\<lparr>count := count r + 1\<rparr>)"
      using use_in_window [OF True "2.prems"(1) inw] .
    have rest: "\<forall>x \<in> set rest. from_client c x \<longrightarrow>
        snd x - firstRequest (r\<lparr>count := count r + 1\<rparr>) \<le> windowMs (middleware (use mw req now))"
      using "2.prems"(2) by (simp add: use_config)
    show ?thesis
      using "2.IH" [OF st rest] True by (simp add: from_client_def)
  next
    case False
    have st: "requests (middleware (use mw req now)) c = Some r"
      using use_other_client [OF False] "2.prems"(1) by simp
    have rest: "\<forall>x \<in> set rest. from_client c x \<longrightarrow>
        snd x - firstRequest r \<le> windowMs (middleware (use mw req now))"
      using "2.prems"(2) by (simp add: use_config)
    show ?thesis
      using "2.IH" [OF st rest] False by (simp add: from_client_def)
  qed
qed

lemma use_outcome_in_window:
  "getClientId req = c \<Longrightarrow> requests mw c = Some r \<Longrightarrow> now - firstRequest r \<le> windowMs mw \<Longrightarrow>
   outcome (use mw req now) =
     (if count r + 1 > maxRequests mw
      then Inl (HttpException TOO_MANY_REQUESTS ''Too many requests. Please try again later.''
                  (ceil_div (firstRequest r + windowMs mw - now) 1000) TOO_MANY_REQUESTS)
      else Inr ())"
  by (simp add: use_def Let_def)

lemma use_outcome_new_window:
  "getClientId req = c \<Longrightarrow>
   requests mw c = None \<or> (\<exists>r. requests mw c = Some r \<and> now - firstRequest r > windowMs mw) \<Longrightarrow>
   outcome (use mw req now) =
     (if 1 > maxRequests mw
      then Inl (HttpException TOO_MANY_REQUESTS ''Too many requests. Please try again later.''
                  (ceil_div (windowMs mw) 1000) TOO_MANY_REQUESTS)
      else Inr ())"
  by (elim disjE exE conjE) (simp_all add: use_def Let_def)

lemma ceil_div_1000_nonneg: "0 \<le> x \<Longrightarrow> 0 \<le> ceil_div x 1000"
  unfolding ceil_div_def by (simp add: div_int_pos_iff) 

lemma ceil_div_1000_pos_iff: "0 < ceil_div x 1000 \<longleftrightarrow> 0 < x"
  unfolding ceil_div_def by (simp add: pos_imp_zdiv_neg_iff)


text \<open>
  Claim C1, as the code has it. A window of client \<open>c\<close> opens with a request at \<open>t0\<close>
  that finds no record of \<open>c\<close>, or one older than \<open>windowMs\<close>. Let \<open>mid\<close> be the requests
  that follow, of any client, those of \<open>c\<close> arriving while the window is open
  (\<open>now - t0 \<le> windowMs\<close>, the negation of the source's expiry test). Then the \<open>k\<close>-th
  request of \<open>c\<close> in the window is passed on exactly when \<open>k \<le> maxRequests\<close>: the
  first \<open>maxRequests\<close> are allowed and the next one is refused with status 429 and
  \<open>retryAfter = ceil((t0 + windowMs - now) / 1000)\<close>. That value is never negative, and
  it is positive exactly when \<open>now < t0 + windowMs\<close>: a request refused at the last
  millisecond of the window, \<open>now = t0 + windowMs\<close>, carries \<open>retryAfter = 0\<close>.
\<close>

theorem rate_limit_window:
  assumes opener: "getClientId rq0 = c"
    and fresh: "requests mw c = None \<or>
                (\<exists>r. requests mw c = Some r \<and> t0 - firstRequest r > windowMs mw)"
    and inwin: "\<forall>x \<in> set mid. from_client c x \<longrightarrow> snd x - t0 \<le> windowMs mw"
    and wpos: "0 \<le> windowMs mw"
    and idx: "i < length ((rq0, t0) # mid)"
    and mine: "from_client c (((rq0, t0) # mid) ! i)"
  shows "outcome (use (run mw (take i ((rq0, t0) # mid)))
                    (fst (((rq0, t0) # mid) ! i)) (snd (((rq0, t0) # mid) ! i))) =
           (if int (length (filter (from_client c) (take (Suc i) ((rq0, t0) # mid))))
                 \<le> maxRequests mw
            then Inr ()
            else Inl (HttpException TOO_MANY_REQUESTS
                        ''Too many requests. Please try again later.''
                        (ceil_div (t0 + windowMs mw - snd (((rq0, t0) # mid) ! i)) 1000)
                        TOO_MANY_REQUESTS))
         \<and> 0 \<le> ceil_div (t0 + windowMs mw - snd (((rq0, t0) # mid) ! i)) 1000
         \<and> (0 < ceil_div (t0 + windowMs mw - snd (((rq0, t0) # mid) ! i)) 1000
              \<longleftrightarrow> snd (((rq0, t0) # mid) ! i) < t0 + windowMs mw)"
proof (cases i)
  case 0
  have "outcome (use mw rq0 t0) =
     (if 1 > maxRequests mw
      then Inl (HttpException TOO_MANY_REQUESTS ''Too many requests. Please try again later.''
                  (ceil_div (windowMs mw) 1000) TOO_MANY_REQUESTS)
      else Inr ())"
    using use_outcome_new_window [OF opener fresh] .
  moreover have "from_client c (rq0, t0)"
    using opener by (simp add: from_client_def)
  ultimately show ?thesis
    using 0 wpos by (simp add: ceil_div_1000_nonneg ceil_div_1000_pos_iff)
next
  case (Suc j)
  let ?mw1 = "middleware (use mw rq0 t0)"
  let ?r1 = "\<lparr>count = 1, firstRequest = t0\<rparr>"
  let ?pre = "take j mid"
  have j: "j < length mid" using idx Suc by simp
  have first: "from_client c (rq0, t0)"
    using opener by (simp add: from_client_def)
  have cur: "from_client c (mid ! j)" using mine Suc by simp
  have cur_in: "mid ! j \<in> set mid" using j by simp
  have cur_win: "snd (mid ! j) - t0 \<le> windowMs mw" using inwin cur cur_in by blast
  have st1: "requests ?mw1 c = Some ?r1"
    using use_new_window [OF opener fresh] .
  have pre_win: "\<forall>x \<in> set ?pre. from_client c x \<longrightarrow> snd x - firstRequest ?r1 \<le> windowMs ?mw1"
    using inwin by (auto simp add: use_config dest: in_set_takeD)
  have st: "requests (run ?mw1 ?pre) c =
      Some (?r1\<lparr>count := count ?r1 + int (length (filter (from_client c) ?pre))\<rparr>)"
    using run_record [OF st1 pre_win] .
  have cfg: "windowMs (run ?mw1 ?pre) = windowMs mw" "maxRequests (run ?mw1 ?pre) = maxRequests mw"
    by (simp_all add: run_config use_config)
  have cid: "getClientId (fst (mid ! j)) = c" using cur by (simp add: from_client_def)
  have w: "snd (mid ! j) - firstRequest (?r1\<lparr>count := count ?r1 + int (length (filter (from_client c) ?pre))\<rparr>)
            \<le> windowMs (run ?mw1 ?pre)"
    using cur_win cfg by simp
  have out: "outcome (use (run ?mw1 ?pre) (fst (mid ! j)) (snd (mid ! j))) =
     (if 2 + int (length (filter (from_client c) ?pre)) > maxRequests mw
      then Inl (HttpException TOO_MANY_REQUESTS ''Too many requests. Please try again later.''
                  (ceil_div (t0 + windowMs mw - snd (mid ! j)) 1000) TOO_MANY_REQUESTS)
      else Inr ())"
    using use_outcome_in_window [OF cid st w] cfg by simp
  have pos: "int (length (filter (from_client c) (take (Suc i) ((rq0, t0) # mid)))) =
             2 + int (length (filter (from_client c) ?pre))"
    using Suc first cur j by (simp add: take_Suc_conv_app_nth)
  have nonneg: "0 \<le> t0 + windowMs mw - snd (mid ! j)" using cur_win by simp
  show ?thesis
    unfolding pos using Suc out nonneg
    by (auto simp add: ceil_div_1000_nonneg ceil_div_1000_pos_iff)
qed


text \<open>A client that connects directly from \<open>10.0.0.1\<close>.\<close>

lemma getClientId_request_from: "getClientId (request_from ''10.0.0.1'') = Some ''10.0.0.1''"
  by (simp add: request_from_def getClientId_def truthy_header_def or_else_def truthy_str_def)

text \<open>
  The theorem at the default configuration: after a request at time 0 and 99 more at
  time 1000, the 101st at time 1000 is refused with \<open>retryAfter = 59\<close>.
\<close>

theorem rate_limit_window_witness:
  "outcome (use (run new_RateLimitMiddleware
                   (take 100 ((request_from ''10.0.0.1'', 0) #
                              replicate 100 (request_from ''10.0.0.1'', 1000))))
              (request_from ''10.0.0.1'') 1000) =
     Inl (HttpException TOO_MANY_REQUESTS ''Too many requests. Please try again later.''
            59 TOO_MANY_REQUESTS)"
  using rate_limit_window [of "request_from ''10.0.0.1''" "Some ''10.0.0.1''"
          new_RateLimitMiddleware 0 "replicate 100 (request_from ''10.0.0.1'', 1000)" 100]
  by (simp add: getClientId_request_from from_client_def new_RateLimitMiddleware_def
        ceil_div_def take_Suc_Cons)

text \<open>
  Claim C1 as the specification words it asks for \<open>retryAfterSeconds > 0\<close> on every
  refusal. With the default configuration, 100 requests at time 0 are followed by a
  101st at time 60000: the window is still open (\<open>60000 - 0 > 60000\<close> is false, the
  record keeps \<open>firstRequest = 0\<close>), the request is refused, and \<open>Retry-After\<close> is 0.
\<close>

theorem rate_limit_retry_after_zero:
  "outcome (use (run new_RateLimitMiddleware (replicate 100 (request_from ''10.0.0.1'', 0)))
              (request_from ''10.0.0.1'') 60000) =
     Inl (HttpException TOO_MANY_REQUESTS ''Too many requests. Please try again later.''
            0 TOO_MANY_REQUESTS)
   \<and> Retry_After (headers (use (run new_RateLimitMiddleware
                                  (replicate 100 (request_from ''10.0.0.1'', 0)))
                             (request_from ''10.0.0.1'') 60000)) = Some 0
   \<and> requests (middleware (use (run new_RateLimitMiddleware
                                  (replicate 100 (request_from ''10.0.0.1'', 0)))
                             (request_from ''10.0.0.1'') 60000)) (Some ''10.0.0.1'') =
       Some \<lparr>count = 101, firstRequest = 0\<rparr>"
proof -
  let ?rq = "request_from ''10.0.0.1''"
  let ?c = "Some ''10.0.0.1''"
  let ?mw1 = "middleware (use new_RateLimitMiddleware ?rq 0)"
  have split: "replicate 100 (?rq, 0::int) = (?rq, 0) # replicate 99 (?rq, 0)"
    by (simp add: numeral_eq_Suc)
  have st1: "requests ?mw1 ?c = Some \<lparr>count = 1, firstRequest = 0\<rparr>"
    by (rule use_new_window [OF getClientId_request_from])
       (simp add: new_RateLimitMiddleware_def)
  have cfg1: "windowMs ?mw1 = 60000" "maxRequests ?mw1 = 100"
    by (simp_all add: use_config new_RateLimitMiddleware_def)
  have win: "\<forall>x \<in> set (replicate 99 (?rq, 0::int)). from_client ?c x \<longrightarrow>
              snd x - firstRequest \<lparr>count = 1, firstRequest = 0\<rparr> \<le> windowMs ?mw1"
    by (simp add: cfg1)
  have cnt: "length (filter (from_client ?c) (replicate 99 (?rq, 0::int))) = 99"
    by (simp add: from_client_def getClientId_request_from)
  have st: "requests (run new_RateLimitMiddleware (replicate 100 (?rq, 0))) ?c =
              Some \<lparr>count = 100, firstRequest = 0\<rparr>"
    using run_record [OF st1 win] cnt by (simp add: split)
  have cfg: "windowMs (run new_RateLimitMiddleware (replicate 100 (?rq, 0))) = 60000"
            "maxRequests (run new_RateLimitMiddleware (replicate 100 (?rq, 0))) = 100"
    by (simp_all add: run_config new_RateLimitMiddleware_def)
  show ?thesis
    using st cfg getClientId_request_from
    by (simp add: use_def Let_def ceil_div_def)
qed

section \<open>Properties of the client identifier\<close>

lemma split_comma_first: "first_entry (split_comma s) = Some (takeWhile (\<lambda>c. c \<noteq> CHR '','') s)"
  by (induction s) (auto split: list.splits)

text \<open>
  Claim C8, as the code has it. When the forwarded-for header is a non-empty string the
  identifier is the text before its first comma, exactly as received: nothing is
  trimmed. When the header is an array the identifier is its first element as it is.
  Without the header (or with an empty one) the identifier is \<open>req.ip\<close>, else the socket's
  remote address, else the literal \<open>unknown\<close>, which all unidentified clients share.
\<close>

theorem getClientId_cases:
  "(\<forall>s. x_forwarded_for req = Some (Single s) \<and> s \<noteq> [] \<longrightarrow>
        getClientId req = Some (takeWhile (\<lambda>c. c \<noteq> CHR '','') s))
   \<and> (\<forall>xs. x_forwarded_for req = Some (Multiple xs) \<longrightarrow> getClientId req = first_entry xs)
   \<and> (x_forwarded_for req = None \<or> x_forwarded_for req = Some (Single []) \<longrightarrow>
        (\<forall>a. ip req = Some a \<and> a \<noteq> [] \<longrightarrow> getClientId req = Some a)
      \<and> (\<forall>a. (ip req = None \<or> ip req = Some []) \<and> remoteAddress req = Some a \<and> a \<noteq> []
             \<longrightarrow> getClientId req = Some a)
      \<and> ((ip req = None \<or> ip req = Some []) \<and>
          (remoteAddress req = None \<or> remoteAddress req = Some [])
             \<longrightarrow> getClientId req = Some ''unknown''))"
  by (auto simp add: getClientId_def truthy_header_def or_else_def truthy_str_def
        split_comma_first)

text \<open>One request for each case of the theorem.\<close>

theorem getClientId_cases_witness:
  "getClientId \<lparr>x_forwarded_for = Some (Single ''203.0.113.7, 10.0.0.2''),
                ip = Some ''10.0.0.2'', remoteAddress = Some ''10.0.0.2''\<rparr> = Some ''203.0.113.7''
   \<and> getClientId \<lparr>x_forwarded_for = Some (Multiple [''203.0.113.7'', ''10.0.0.2'']),
                ip = Some ''10.0.0.2'', remoteAddress = None\<rparr> = Some ''203.0.113.7''
   \<and> getClientId \<lparr>x_forwarded_for = None, ip = Some ''10.0.0.2'', remoteAddress = None\<rparr>
        = Some ''10.0.0.2''
   \<and> getClientId \<lparr>x_forwarded_for = None, ip = None, remoteAddress = Some ''10.0.0.3''\<rparr>
        = Some ''10.0.0.3''
   \<and> getClientId \<lparr>x_forwarded_for = None, ip = None, remoteAddress = None\<rparr> = Some ''unknown''"
  using getClientId_cases [of "\<lparr>x_forwarded_for = Some (Single ''203.0.113.7, 10.0.0.2''),
                ip = Some ''10.0.0.2'', remoteAddress = Some ''10.0.0.2''\<rparr>"]
        getClientId_cases [of "\<lparr>x_forwarded_for = Some (Multiple [''203.0.113.7'', ''10.0.0.2'']),
                ip = Some ''10.0.0.2'', remoteAddress = None\<rparr>"]
        getClientId_cases [of "\<lparr>x_forwarded_for = None, ip = Some ''10.0.0.2'', remoteAddress = None\<rparr>"]
        getClientId_cases [of "\<lparr>x_forwarded_for = None, ip = None, remoteAddress = Some ''10.0.0.3''\<rparr>"]
        getClientId_cases [of "\<lparr>x_forwarded_for = None, ip = None, remoteAddress = None\<rparr>"]
  by simp

text \<open>
  Claim C8 as the specification words it has the first entry trimmed. For the header
  \<open>203.0.113.7 , 10.0.0.2\<close> the source keeps the space before the comma, so its
  identifier differs from the trimmed one.
\<close>

theorem getClientId_not_trimmed:
  "getClientId \<lparr>x_forwarded_for = Some (Single ''203.0.113.7 , 10.0.0.2''),
                ip = Some ''10.0.0.2'', remoteAddress = None\<rparr> = Some ''203.0.113.7 ''
   \<and> spec_getClientId \<lparr>x_forwarded_for = Some (Single ''203.0.113.7 , 10.0.0.2''),
                ip = Some ''10.0.0.2'', remoteAddress = None\<rparr> = Some ''203.0.113.7''
   \<and> getClientId \<lparr>x_forwarded_for = Some (Single ''203.0.113.7 , 10.0.0.2''),
                ip = Some ''10.0.0.2'', remoteAddress = None\<rparr>
       \<noteq> spec_getClientId \<lparr>x_forwarded_for = Some (Single ''203.0.113.7 , 10.0.0.2''),
                ip = Some ''10.0.0.2'', remoteAddress = None\<rparr>"
  by (simp add: getClientId_def spec_getClientId_def truthy_header_def trim_def is_space_def)

section \<open>Properties of the role guard\<close>

lemma role_value_inj: "role_value r = role_value r' \<longleftrightarrow> r = r'"
  by (cases r; cases r') simp_all

lemma array_includes_role: "array_includes roles (Some (VStr (role_value r))) \<longleftrightarrow> r \<in> set roles"
  by (auto simp add: array_includes_def role_value_inj)

text \<open>
  Claim C9. The roles in force are those declared on the method, else those declared on
  the class. With none declared, or an empty list, the guard grants access whoever
  calls. With a non-empty list it returns false when the request has no user, and for a
  user whose role is \<open>r\<close> it returns exactly whether \<open>r\<close> is in the list: no role stands
  for another.
\<close>

theorem canActivate_roles:
  "(handler_roles ctx = None \<and> class_roles ctx = None \<longrightarrow> canActivate ctx)
   \<and> (handler_roles ctx = Some [] \<longrightarrow> canActivate ctx)
   \<and> (handler_roles ctx = None \<and> class_roles ctx = Some [] \<longrightarrow> canActivate ctx)
   \<and> (\<forall>roles. roles \<noteq> [] \<and>
          (handler_roles ctx = Some roles \<or>
           handler_roles ctx = None \<and> class_roles ctx = Some roles) \<longrightarrow>
          (request_user ctx = None \<longrightarrow> \<not> canActivate ctx)
        \<and> (\<forall>user r. request_user ctx = Some user \<and> user ''role'' = Some (VStr (role_value r))
              \<longrightarrow> canActivate ctx = (r \<in> set roles)))"
  by (auto simp add: canActivate_def array_includes_role)

text \<open>
  The theorem on six contexts: no declaration; an empty method-level list over a
  class-level one; an empty class-level list; a missing user; an admin on a route for
  moderators only, the method-level list overriding the class-level one; a moderator
  on a route for admins and moderators.
\<close>

theorem canActivate_roles_witness:
  "canActivate \<lparr>handler_roles = None, class_roles = None, request_user = None\<rparr>
   \<and> canActivate \<lparr>handler_roles = Some [], class_roles = Some [ADMIN], request_user = None\<rparr>
   \<and> canActivate \<lparr>handler_roles = None, class_roles = Some [], request_user = None\<rparr>
   \<and> \<not> canActivate \<lparr>handler_roles = Some [ADMIN], class_roles = None, request_user = None\<rparr>
   \<and> \<not> canActivate \<lparr>handler_roles = Some [MODERATOR], class_roles = Some [ADMIN],
                      request_user = Some [''role'' \<mapsto> VStr ''admin'']\<rparr>
   \<and> canActivate \<lparr>handler_roles = None, class_roles = Some [ADMIN, MODERATOR],
                    request_user = Some [''role'' \<mapsto> VStr ''moderator'']\<rparr>"
  using canActivate_roles [of "\<lparr>handler_roles = None, class_roles = None, request_user = None\<rparr>"]
        canActivate_roles [of "\<lparr>handler_roles = Some [], class_roles = Some [ADMIN], request_user = None\<rparr>"]
        canActivate_roles [of "\<lparr>handler_roles = None, class_roles = Some [], request_user = None\<rparr>"]
        canActivate_roles [of "\<lparr>handler_roles = Some [ADMIN], class_roles = None, request_user = None\<rparr>"]
        canActivate_roles [of "\<lparr>handler_roles = Some [MODERATOR], class_roles = Some [ADMIN],
                      request_user = Some [''role'' \<mapsto> VStr ''admin'']\<rparr>",
            THEN conjunct2, THEN conjunct2, THEN conjunct2, rule_format, of "[MODERATOR]",
            THEN conjunct2, rule_format, of "[''role'' \<mapsto> VStr ''admin'']" ADMIN]
        canActivate_roles [of "\<lparr>handler_roles = None, class_roles = Some [ADMIN, MODERATOR],
                    request_user = Some [''role'' \<mapsto> VStr ''moderator'']\<rparr>",
            THEN conjunct2, THEN conjunct2, THEN conjunct2, rule_format, of "[ADMIN, MODERATOR]",
            THEN conjunct2, rule_format, of "[''role'' \<mapsto> VStr ''moderator'']" MODERATOR]
  by simp

section \<open>Properties of the users service\<close>

lemma select_apply: "select cols e k = (if k \<in> set cols then e k else None)"
  by (simp add: select_def restrict_map_def)

lemma select_public_no_password: "select public_columns e ''password'' = None"
  by (simp add: select_apply public_columns_def)

lemma row_obj_apply:
  "row_obj u ''password'' = Some (VStr (password u))"
  "row_obj u ''email'' = Some (VStr (email u))"
  "row_obj u ''id'' = Some (VNum (uid u))"
  "row_obj u ''firstName'' = Some (VStr (firstName u))"
  "row_obj u ''isActive'' = Some (VBool (isActive u))"
  by (simp_all add: row_obj_def)

lemma demo_fields [simp]:
  "uid ada = 1" "uid bob = 2" "email ada = ''ada@example.com''" "email bob = ''bob@example.com''"
  "createdAt ada = 1000" "createdAt bob = 2000" "isActive ada" "\<not> isActive bob"
  "password ada = ''$2b$Secret123''" "password bob = ''$2b$Hunter22''"
  "firstName ada = ''Ada''" "firstName bob = ''Bob''"
  by (simp_all add: ada_def bob_def)

lemma findOne_ada: "findOne demo_users 1 = Inr (select public_columns (row_obj ada))"
  by (simp add: findOne_def demo_users_def)

lemma findOne_bob: "findOne demo_users 2 = Inr (select public_columns (row_obj bob))"
  by (simp add: findOne_def demo_users_def)

lemma create_eve:
  "\<exists>R U. create demo_env demo_users eve 5000 = Inr (R, U)
     \<and> U ''email'' = Some (VStr ''eve@example.com'') \<and> U ''id'' = Some (VNum 3)
     \<and> map password (rows R) = [''$2b$Secret123'', ''$2b$Hunter22'', ''$2b$Passw0rd'']"
proof -
  have no_id: "props_CreateUserDto eve ''id'' = None"
    by (simp add: props_CreateUserDto_def own_prop_def eve_def)
  show ?thesis
    by (simp add: create_def Let_def save_def no_id demo_users_def demo_env_def saltRounds_def
          split_def row_obj_apply merge_columns_def column_defaults_def str_column_def
          props_CreateUserDto_def own_prop_def eve_def)
qed

lemma update_ada:
  "\<exists>R U. update demo_users 1 rename_ada 6000 = Inr (R, U)
     \<and> U ''firstName'' = Some (VStr ''Augusta'')
     \<and> map password (rows R) = [''$2b$Secret123'', ''$2b$Hunter22'']
     \<and> map firstName (rows R) = [''Augusta'', ''Bob'']"
proof -
  have has_id: "(select public_columns (row_obj ada) ++ props_UpdateUserDto rename_ada) ''id''
                  = Some (VNum 1)"
    by (simp add: select_apply public_columns_def row_obj_apply props_UpdateUserDto_def
          own_prop_def rename_ada_def map_add_def)
  show ?thesis
    unfolding update_def findOne_ada
    by (simp add: Let_def save_def has_id demo_users_def split_def rename_ada_def
          merge_columns_def str_column_def props_UpdateUserDto_def own_prop_def select_apply
          public_columns_def row_obj_apply map_add_def)
qed

text \<open>
  Claim C10, as the code has it. The objects that \<open>create\<close>, \<open>findAll\<close>, \<open>findOne\<close> and
  \<open>update\<close> return have no \<open>password\<close> property, whatever the table and the input:
  \<open>create\<close> and \<open>update\<close> drop it from the saved entity, \<open>findAll\<close> and \<open>findOne\<close> select
  nine columns that do not include it. (\<open>findByEmail\<close> is not among them; see below.)
\<close>

theorem users_service_no_password:
  "(\<forall>repo' u. create env repo dto now = Inr (repo', u) \<longrightarrow> ''password'' \<notin> dom u)
   \<and> (\<forall>u \<in> set (findAll repo). ''password'' \<notin> dom u)
   \<and> (\<forall>u. findOne repo i = Inr u \<longrightarrow> ''password'' \<notin> dom u)
   \<and> (\<forall>repo' u. update repo i udto now = Inr (repo', u) \<longrightarrow> ''password'' \<notin> dom u)"
proof (intro conjI allI impI ballI)
  fix repo' u assume "create env repo dto now = Inr (repo', u)"
  then show "''password'' \<notin> dom u"
    by (auto simp add: create_def Let_def split: if_splits prod.splits)
next
  fix u assume "u \<in> set (findAll repo)"
  then show "''password'' \<notin> dom u"
    by (auto simp add: findAll_def domIff select_public_no_password)
next
  fix u assume "findOne repo i = Inr u"
  then show "''password'' \<notin> dom u"
    by (auto simp add: findOne_def domIff select_public_no_password split: option.splits)
next
  fix repo' u assume "update repo i udto now = Inr (repo', u)"
  then show "''password'' \<notin> dom u"
    by (auto simp add: update_def Let_def split: sum.splits if_splits prod.splits)
qed

text \<open>
  The theorem on the sample table: registering Eve, listing the users, reading Ada and
  renaming her all succeed, the table keeps every stored hash, and no returned object
  has a \<open>password\<close> property.
\<close>

theorem users_service_no_password_witness:
  "(case create demo_env demo_users eve 5000 of
      Inl _ \<Rightarrow> False
    | Inr (repo', u) \<Rightarrow>
        ''password'' \<notin> dom u \<and> u ''email'' = Some (VStr ''eve@example.com'') \<and>
        u ''id'' = Some (VNum 3) \<and>
        map password (rows repo') = [''$2b$Secret123'', ''$2b$Hunter22'', ''$2b$Passw0rd''])
   \<and> length (findAll demo_users) = 2
   \<and> list_all (\<lambda>u. ''password'' \<notin> dom u) (findAll demo_users)
   \<and> (case findOne demo_users 1 of
         Inl _ \<Rightarrow> False
       | Inr u \<Rightarrow> ''password'' \<notin> dom u \<and> u ''email'' = Some (VStr ''ada@example.com''))
   \<and> (case update demo_users 1 rename_ada 6000 of
         Inl _ \<Rightarrow> False
       | Inr (repo', u) \<Rightarrow>
           ''password'' \<notin> dom u \<and> u ''firstName'' = Some (VStr ''Augusta'') \<and>
           map password (rows repo') = [''$2b$Secret123'', ''$2b$Hunter22''] \<and>
           map firstName (rows repo') = [''Augusta'', ''Bob''])"
proof -
  note main = users_service_no_password [of demo_env demo_users eve 5000 1 rename_ada]
  note main' = users_service_no_password [of demo_env demo_users eve 6000 1 rename_ada]
  have c_pw: "case create demo_env demo_users eve 5000 of
                Inl _ \<Rightarrow> True | Inr (repo', u) \<Rightarrow> ''password'' \<notin> dom u"
    using main by (simp split: sum.splits prod.splits)
  have "\<forall>u \<in> set (findAll demo_users). ''password'' \<notin> dom u"
    using main by (rule conjunct2 [THEN conjunct1])
  then have all: "list_all (\<lambda>u. ''password'' \<notin> dom u) (findAll demo_users)"
    by (simp add: list_all_iff)
  have len: "length (findAll demo_users) = 2"
    by (simp add: findAll_def demo_users_def order_by_def)
  have o_pw: "''password'' \<notin> dom (select public_columns (row_obj ada))"
    using main findOne_ada by simp
  have o_em: "select public_columns (row_obj ada) ''email'' = Some (VStr ''ada@example.com'')"
    by (simp add: select_apply public_columns_def row_obj_apply)
  have u_pw: "case update demo_users 1 rename_ada 6000 of
                Inl _ \<Rightarrow> True | Inr (repo', u) \<Rightarrow> ''password'' \<notin> dom u"
    using main' by (simp split: sum.splits prod.splits)
  have c: "case create demo_env demo_users eve 5000 of
      Inl _ \<Rightarrow> False
    | Inr (repo', u) \<Rightarrow>
        ''password'' \<notin> dom u \<and> u ''email'' = Some (VStr ''eve@example.com'') \<and>
        u ''id'' = Some (VNum 3) \<and>
        map password (rows repo') = [''$2b$Secret123'', ''$2b$Hunter22'', ''$2b$Passw0rd'']"
    using c_pw create_eve by (cases "create demo_env demo_users eve 5000") auto
  have u: "case update demo_users 1 rename_ada 6000 of
         Inl _ \<Rightarrow> False
       | Inr (repo', u) \<Rightarrow>
           ''password'' \<notin> dom u \<and> u ''firstName'' = Some (VStr ''Augusta'') \<and>
           map password (rows repo') = [''$2b$Secret123'', ''$2b$Hunter22''] \<and>
           map firstName (rows repo') = [''Augusta'', ''Bob'']"
    using u_pw update_ada by (cases "update demo_users 1 rename_ada 6000") auto
  have o: "case findOne demo_users 1 of
         Inl _ \<Rightarrow> False
       | Inr u \<Rightarrow> ''password'' \<notin> dom u \<and> u ''email'' = Some (VStr ''ada@example.com'')"
    unfolding findOne_ada using o_pw o_em by simp
  show ?thesis
    using c len all o u by (intro conjI)
qed

text \<open>
  Claim C10 as the specification words it covers every operation of the service that
  returns a user. \<open>findByEmail\<close> returns the full entity, stored hash included, as the
  login needs it.
\<close>

theorem findByEmail_returns_password:
  "map_option (\<lambda>u. row_obj u ''password'') (findByEmail demo_users ''ada@example.com'')
     = Some (Some (VStr ''$2b$Secret123''))"
  by (simp add: findByEmail_def demo_users_def row_obj_apply)

section \<open>Properties of the authentication service\<close>

lemma validateJwtPayload_deactivated:
  "find (\<lambda>r. uid r = sub payload) (rows repo) = Some u \<Longrightarrow> \<not> isActive u \<Longrightarrow>
   validateJwtPayload repo payload = Inl (UnauthorizedException ''User account is deactivated'')"
  by (simp add: validateJwtPayload_def findOne_def select_apply public_columns_def row_obj_apply)

lemma validateJwtPayload_missing:
  "find (\<lambda>r. uid r = sub payload) (rows repo) = None \<Longrightarrow>
   validateJwtPayload repo payload =
     Inl (NotFoundException (''User with ID '' @ show_int (sub payload) @ '' not found''))"
  by (simp add: validateJwtPayload_def findOne_def)

text \<open>
  A user who is deactivated with \<open>remove\<close> is refused from then on: the token of a user
  that the table still had when \<open>remove\<close> ran fails with the authentication error.
\<close>

lemma find_map_same_key:
  "(\<And>x. uid (f x) = uid x) \<Longrightarrow>
   find (\<lambda>r. uid r = i) (map f rs) = map_option f (find (\<lambda>r. uid r = i) rs)"
  by (induction rs) simp_all

lemma uid_merge_columns: "uid (merge_columns e r) = uid r"
  by (simp add: merge_columns_def)

lemma remove_then_rejected:
  assumes "find (\<lambda>r. uid r = i) (rows repo) = Some u"
  shows "\<exists>repo'. remove repo i now = Inr repo' \<and>
           validateJwtPayload repo' \<lparr>sub = i, jwt_email = e, jwt_role = r\<rparr> =
             Inl (UnauthorizedException ''User account is deactivated'')"
proof -
  let ?entity = "(select public_columns (row_obj u))(''isActive'' \<mapsto> VBool False)"
  let ?f = "\<lambda>r. if uid r = i then (merge_columns ?entity r)\<lparr>updatedAt := now\<rparr> else r"
  have u: "uid u = i" "u \<in> set (rows repo)"
    using assms by (auto simp add: find_Some_iff)
  have id: "?entity ''id'' = Some (VNum i)"
    using u by (simp add: select_apply public_columns_def row_obj_apply)
  have ex: "\<exists>r \<in> set (rows repo). uid r = i" using u by blast
  have rm: "remove repo i now = Inr (repo\<lparr>rows := map ?f (rows repo)\<rparr>)"
    using assms id ex by (simp add: remove_def findOne_def save_def)
  have key: "\<And>x. uid (?f x) = uid x" by (simp add: uid_merge_columns)
  have fd: "find (\<lambda>r. uid r = i) (map ?f (rows repo)) = Some (?f u)"
    using find_map_same_key [of ?f i "rows repo", OF key] assms by simp
  have inactive: "\<not> isActive (?f u)"
    using u by (simp add: merge_columns_def)
  have "validateJwtPayload (repo\<lparr>rows := map ?f (rows repo)\<rparr>)
          \<lparr>sub = i, jwt_email = e, jwt_role = r\<rparr> =
        Inl (UnauthorizedException ''User account is deactivated'')"
    by (rule validateJwtPayload_deactivated [of _ _ "?f u"]) (simp_all add: fd inactive)
  then show ?thesis using rm by simp
qed

text \<open>
  Claim C2 at a token whose subject is no longer in the table. The sample table has the
  users 1 and 2; for a token of user 7 \<open>findOne\<close> throws its not-found exception (status
  404), which \<open>validateJwtPayload\<close> and the strategy pass on: the failure is not the
  authentication error (status 401) the source's own unreachable branch would throw. A
  token of the deactivated user 2 is refused with the authentication error, and so is a
  token of user 1 once \<open>remove\<close> has deactivated her.
\<close>

theorem validateJwtPayload_missing_user_not_found:
  "validateJwtPayload demo_users \<lparr>sub = 7, jwt_email = ''gone@example.com'', jwt_role = ''user''\<rparr>
     = Inl (NotFoundException ''User with ID 7 not found'')
   \<and> JwtStrategy_validate demo_users
        \<lparr>sub = 7, jwt_email = ''gone@example.com'', jwt_role = ''user''\<rparr>
     = Inl (NotFoundException ''User with ID 7 not found'')
   \<and> getStatus (NotFoundException ''User with ID 7 not found'') = 404
   \<and> validateJwtPayload demo_users \<lparr>sub = 2, jwt_email = ''bob@example.com'', jwt_role = ''user''\<rparr>
     = Inl (UnauthorizedException ''User account is deactivated'')
   \<and> (\<exists>repo'. remove demo_users 1 7000 = Inr repo' \<and>
         validateJwtPayload repo' \<lparr>sub = 1, jwt_email = ''ada@example.com'', jwt_role = ''admin''\<rparr>
           = Inl (UnauthorizedException ''User account is deactivated''))"
proof -
  have s7: "show_int 7 = ''7''"
    by (simp add: show_int_def show_nat.simps digit_char_def)
  have m: "validateJwtPayload demo_users
             \<lparr>sub = 7, jwt_email = ''gone@example.com'', jwt_role = ''user''\<rparr>
           = Inl (NotFoundException ''User with ID 7 not found'')"
    using validateJwtPayload_missing
            [of "\<lparr>sub = 7, jwt_email = ''gone@example.com'', jwt_role = ''user''\<rparr>" demo_users]
    by (simp add: demo_users_def s7)
  have d: "validateJwtPayload demo_users
             \<lparr>sub = 2, jwt_email = ''bob@example.com'', jwt_role = ''user''\<rparr>
           = Inl (UnauthorizedException ''User account is deactivated'')"
    using validateJwtPayload_deactivated
            [of "\<lparr>sub = 2, jwt_email = ''bob@example.com'', jwt_role = ''user''\<rparr>" demo_users bob]
    by (simp add: demo_users_def)
  have r: "\<exists>repo'. remove demo_users 1 7000 = Inr repo' \<and>
         validateJwtPayload repo' \<lparr>sub = 1, jwt_email = ''ada@example.com'', jwt_role = ''admin''\<rparr>
           = Inl (UnauthorizedException ''User account is deactivated'')"
    by (rule remove_then_rejected [of 1 demo_users ada]) (simp add: demo_users_def)
  have s: "JwtStrategy_validate demo_users
             \<lparr>sub = 7, jwt_email = ''gone@example.com'', jwt_role = ''user''\<rparr>
           = Inl (NotFoundException ''User with ID 7 not found'')"
    by (simp add: m JwtStrategy_validate_def)
  show ?thesis
    using m s d r by (intro conjI) simp_all
qed

text \<open>
  Claim C6. \<open>validateUser\<close> gives \<open>null\<close> when no user has the email, when the account is
  inactive and when the password does not match; otherwise it gives the entity without
  its \<open>password\<close> property. On \<open>null\<close> the login strategy throws one and the same
  exception. So a login with a known email and a wrong password and a login with an
  unknown email, on any tables and with any passwords, have equal outcomes.
\<close>

theorem login_indistinguishable:
  "(findByEmail repo e = None \<longrightarrow> validateUser env repo e pw = None)
   \<and> (\<forall>u. findByEmail repo e = Some u \<and> \<not> isActive u \<longrightarrow> validateUser env repo e pw = None)
   \<and> (\<forall>u. findByEmail repo e = Some u \<and> \<not> bcrypt_compare env pw (password u) \<longrightarrow>
          validateUser env repo e pw = None)
   \<and> (\<forall>u. findByEmail repo e = Some u \<and> isActive u \<and> bcrypt_compare env pw (password u) \<longrightarrow>
          (\<exists>v. validateUser env repo e pw = Some v \<and> ''password'' \<notin> dom v \<and>
               (\<forall>k. k \<noteq> ''password'' \<longrightarrow> v k = row_obj u k)) \<and>
          LocalStrategy_validate env repo e pw = Inr ((row_obj u)(''password'' := None)))
   \<and> (validateUser env repo e pw = None \<longrightarrow>
        LocalStrategy_validate env repo e pw =
          Inl (UnauthorizedException ''Invalid email or password''))
   \<and> (\<forall>u repo2 e2 pw2.
        findByEmail repo e = Some u \<and> \<not> bcrypt_compare env pw (password u) \<and>
        findByEmail repo2 e2 = None \<longrightarrow>
        LocalStrategy_validate env repo e pw = LocalStrategy_validate env repo2 e2 pw2 \<and>
        LocalStrategy_validate env repo e pw =
          Inl (UnauthorizedException ''Invalid email or password''))"
  by (auto simp add: validateUser_def LocalStrategy_validate_def)

text \<open>
  The theorem on the sample table: Ada with a wrong password and an unknown email are
  refused alike, deactivated Bob is refused with his right password, and Ada with her
  right password gets her entity without the hash.
\<close>

theorem login_indistinguishable_witness:
  "LocalStrategy_validate demo_env demo_users ''ada@example.com'' ''wrong''
     = Inl (UnauthorizedException ''Invalid email or password'')
   \<and> LocalStrategy_validate demo_env demo_users ''nobody@example.com'' ''Secret123''
     = Inl (UnauthorizedException ''Invalid email or password'')
   \<and> validateUser demo_env demo_users ''bob@example.com'' ''Hunter22'' = None
   \<and> LocalStrategy_validate demo_env demo_users ''ada@example.com'' ''Secret123''
     = Inr ((row_obj ada)(''password'' := None))"
proof -
  have f: "findByEmail demo_users ''ada@example.com'' = Some ada"
          "findByEmail demo_users ''bob@example.com'' = Some bob"
          "findByEmail demo_users ''nobody@example.com'' = None"
    by (simp_all add: findByEmail_def demo_users_def)
  have cmp: "\<not> bcrypt_compare demo_env ''wrong'' (password ada)"
            "bcrypt_compare demo_env ''Secret123'' (password ada)"
    by (simp_all add: demo_env_def)
  note wrong = login_indistinguishable [of demo_users "''ada@example.com''" demo_env "''wrong''"]
  note bobs = login_indistinguishable [of demo_users "''bob@example.com''" demo_env "''Hunter22''"]
  note right = login_indistinguishable
                 [of demo_users "''ada@example.com''" demo_env "''Secret123''"]
  have two_runs: "LocalStrategy_validate demo_env demo_users ''ada@example.com'' ''wrong'' =
          LocalStrategy_validate demo_env demo_users ''nobody@example.com'' ''Secret123'' \<and>
        LocalStrategy_validate demo_env demo_users ''ada@example.com'' ''wrong'' =
          Inl (UnauthorizedException ''Invalid email or password'')"
  proof (rule wrong [THEN conjunct2, THEN conjunct2, THEN conjunct2, THEN conjunct2,
                     THEN conjunct2, rule_format,
                     of ada demo_users "''nobody@example.com''" "''Secret123''"])
    show "findByEmail demo_users ''ada@example.com'' = Some ada \<and>
          \<not> bcrypt_compare demo_env ''wrong'' (password ada) \<and>
          findByEmail demo_users ''nobody@example.com'' = None"
      using f(1) f(3) cmp(1) by (intro conjI)
  qed
  have inactive: "validateUser demo_env demo_users ''bob@example.com'' ''Hunter22'' = None"
  proof (rule bobs [THEN conjunct2, THEN conjunct1, rule_format, of bob])
    show "findByEmail demo_users ''bob@example.com'' = Some bob \<and> \<not> isActive bob"
      using f(2) by simp
  qed
  have ok: "LocalStrategy_validate demo_env demo_users ''ada@example.com'' ''Secret123''
              = Inr ((row_obj ada)(''password'' := None))"
  proof (rule right [THEN conjunct2, THEN conjunct2, THEN conjunct2, THEN conjunct1,
                     rule_format, of ada, THEN conjunct2])
    show "findByEmail demo_users ''ada@example.com'' = Some ada \<and> isActive ada \<and>
          bcrypt_compare demo_env ''Secret123'' (password ada)"
      using f(1) cmp(2) by simp
  qed
  have unknown: "LocalStrategy_validate demo_env demo_users ''nobody@example.com'' ''Secret123''
                   = Inl (UnauthorizedException ''Invalid email or password'')"
    using two_runs [THEN conjunct1, symmetric] two_runs [THEN conjunct2] by (rule trans)
  show ?thesis
    using two_runs [THEN conjunct2] unknown inactive ok by (intro conjI)
qed

section \<open>Properties of the product listing\<close>

lemma length_insert_by: "length (insert_by le x xs) = Suc (length xs)"
  by (induction xs) simp_all

lemma length_order_by: "length (order_by le xs) = length xs"
  by (induction xs) (simp_all add: order_by_def length_insert_by)

lemma set_insert_by: "set (insert_by le x xs) = insert x (set xs)"
  by (induction xs) auto

lemma set_order_by: "set (order_by le xs) = set xs"
  by (induction xs) (simp_all add: order_by_def set_insert_by)

text \<open>The filters add conditions and nothing else, and their conditions are the query's.\<close>

lemma filters_frame:
  "table_rows (filters q qb) = table_rows qb"
  "ordering (filters q qb) = ordering qb"
  "offset_n (filters q qb) = offset_n qb"
  "limit_n (filters q qb) = limit_n qb"
  by (simp_all add: filters_def only_if_def andWhere_def split: option.splits)

lemma filters_conditions:
  "list_all (\<lambda>c. c p) (conditions (filters q qb)) =
     (list_all (\<lambda>c. c p) (conditions qb) \<and> matches_query q p)"
  by (auto simp add: filters_def only_if_def andWhere_def matches_query_def Let_def
        split: option.splits)

lemma selected_filters:
  "selected (filters q (createQueryBuilder t)) = filter (matches_query q) t"
  by (simp add: selected_def filters_frame filters_conditions)
     (simp add: createQueryBuilder_def)

lemma filtered_builder:
  "offset_n (filters q (createQueryBuilder t)) = None"
  "limit_n (filters q (createQueryBuilder t)) = None"
  by (simp_all add: filters_frame createQueryBuilder_def)

lemma filters_paging:
  "filters (q\<lparr>page_q := a, limit_q := b\<rparr>) = filters q"
  "filters (q\<lparr>sortBy := c\<rparr>) = filters q"
  "filters (q\<lparr>sortOrder := d\<rparr>) = filters q"
  by (simp_all add: filters_def fun_eq_iff)

lemma matches_query_paging:
  "matches_query (q\<lparr>page_q := a, limit_q := b\<rparr>) = matches_query q"
  "matches_query (q\<lparr>sortBy := c\<rparr>) = matches_query q"
  "matches_query (q\<lparr>sortOrder := d\<rparr>) = matches_query q"
  by (simp_all add: matches_query_def fun_eq_iff)

lemma orderBy_safe:
  "orderBy c (if so = ''ASC'' then ''ASC'' else ''DESC'') qb =
     Inr (qb\<lparr>ordering := Some (c, if so = ''ASC'' then ''ASC'' else ''DESC'')\<rparr>)"
  by (simp add: orderBy_def)

lemma getCount_ordering: "getCount (qb\<lparr>ordering := x\<rparr>) = int (length (selected qb))"
  by (simp add: getCount_def selected_def)

lemma getMany_page:
  "column_le c = Some le \<Longrightarrow> offset_n qb = None \<Longrightarrow> limit_n qb = None \<Longrightarrow>
   getMany (take_rows l (skip s (qb\<lparr>ordering := Some (c, d)\<rparr>))) =
     Inr (take (nat l) (drop (nat s)
            (if d = ''ASC'' then order_by le (selected qb)
             else order_by (\<lambda>a b. le b a) (selected qb))))"
  by (simp add: getMany_def paged_def take_rows_def skip_def selected_def)

text \<open>The order of each field of the allow-list, and of the fallback.\<close>

lemma sort_column:
  "column_le (''product.'' @ (if s \<in> set allowedSortFields then s else ''createdAt'')) =
     Some (if s = ''name'' then (\<lambda>a b. string_le (name a) (name b))
           else if s = ''price'' then (\<lambda>a b. price a \<le> price b)
           else if s = ''updatedAt'' then (\<lambda>a b. updatedAt_p a \<le> updatedAt_p b)
           else if s = ''stock'' then (\<lambda>a b. stock a \<le> stock b)
           else (\<lambda>a b. createdAt_p a \<le> createdAt_p b))"
  by (simp add: allowedSortFields_def column_le_def)

text \<open>
  The response of the listing, for every table and query: the listing does not fail,
  and its data and metadata are these.
\<close>

lemma findAll_products_result:
  "findAll_products t q =
     (let p = (case page_q q of None \<Rightarrow> 1 | Some n \<Rightarrow> n);
          l = (case limit_q q of None \<Rightarrow> 10 | Some n \<Rightarrow> n);
          sb = (case sortBy q of None \<Rightarrow> ''createdAt'' | Some s \<Rightarrow> s);
          so = (case sortOrder q of None \<Rightarrow> ''DESC'' | Some s \<Rightarrow> s);
          le = (if sb = ''name'' then (\<lambda>a b. string_le (name a) (name b))
                else if sb = ''price'' then (\<lambda>a b. price a \<le> price b)
                else if sb = ''updatedAt'' then (\<lambda>a b. updatedAt_p a \<le> updatedAt_p b)
                else if sb = ''stock'' then (\<lambda>a b. stock a \<le> stock b)
                else (\<lambda>a b. createdAt_p a \<le> createdAt_p b));
          found = filter (matches_query q) t;
          ordered = (if so = ''ASC'' then order_by le found
                     else order_by (\<lambda>a b. le b a) found)
      in Inr \<lparr>data = take (nat l) (drop (nat ((p - 1) * l)) ordered),
              meta = \<lparr>total_items = int (length found), page = p, limit = l,
                      totalPages = ceil_quotient (int (length found)) l,
                      hasNextPage = js_less p (ceil_quotient (int (length found)) l),
                      hasPreviousPage = (p > 1)\<rparr>\<rparr>)"
proof -
  have dir: "\<And>so. ((if so = ''ASC'' then ''ASC'' else ''DESC'') = ''ASC'') = (so = ''ASC'')"
    by simp
  show ?thesis
    unfolding findAll_products_def Let_def orderBy_safe sum.case getCount_ordering
      getMany_page [OF sort_column filtered_builder] selected_filters dir
    by (rule refl)
qed

lemma ceil_bounds:
  fixes n l :: int
  assumes "1 \<le> l"
  shows "(- ((- n) div l) - 1) * l < n \<and> n \<le> - ((- n) div l) * l"
proof -
  define k where "k = (- n) div l"
  define m where "m = (- n) mod l"
  have eq: "- n = l * k + m" unfolding k_def m_def by simp
  have m: "0 \<le> m" "m < l" using assms unfolding m_def by simp_all
  have "- k * l = n + m" using eq by (simp add: algebra_simps)
  moreover have "(- k - 1) * l = n + m - l" using eq by (simp add: algebra_simps)
  ultimately show ?thesis using m unfolding k_def by simp
qed

lemma findAll_products_unpaged:
  "findAll_products t (q\<lparr>page_q := Some 1, limit_q := Some (1 + int (length t))\<rparr>) =
     (let sb = (case sortBy q of None \<Rightarrow> ''createdAt'' | Some s \<Rightarrow> s);
          so = (case sortOrder q of None \<Rightarrow> ''DESC'' | Some s \<Rightarrow> s);
          le = (if sb = ''name'' then (\<lambda>a b. string_le (name a) (name b))
                else if sb = ''price'' then (\<lambda>a b. price a \<le> price b)
                else if sb = ''updatedAt'' then (\<lambda>a b. updatedAt_p a \<le> updatedAt_p b)
                else if sb = ''stock'' then (\<lambda>a b. stock a \<le> stock b)
                else (\<lambda>a b. createdAt_p a \<le> createdAt_p b));
          found = filter (matches_query q) t;
          ordered = (if so = ''ASC'' then order_by le found
                     else order_by (\<lambda>a b. le b a) found);
          l = 1 + int (length t)
      in Inr \<lparr>data = ordered,
              meta = \<lparr>total_items = int (length found), page = 1, limit = l,
                      totalPages = ceil_quotient (int (length found)) l,
                      hasNextPage = js_less 1 (ceil_quotient (int (length found)) l),
                      hasPreviousPage = False\<rparr>\<rparr>)"
proof -
  have len: "\<And>le. length (order_by le (filter (matches_query q) t)) \<le> Suc (length t)"
    by (simp add: length_order_by le_SucI)
  show ?thesis
    unfolding findAll_products_result
                [of t "q\<lparr>page_q := Some 1, limit_q := Some (1 + int (length t))\<rparr>"]
    using len
    by (simp add: Let_def matches_query_paging nat_add_distrib cong: if_cong)
qed

text \<open>
  Claim C3. For a page \<open>p \<ge> 1\<close> and a limit \<open>l \<ge> 1\<close> (given, or the defaults 1 and 10)
  the listing succeeds. Its total is the number of rows of the table that the query
  asks for: the rows that pass every condition the filters gave the builder, counted
  before any offset or limit. It does not depend on \<open>p\<close> and \<open>l\<close>. Let \<open>whole\<close> be what the same query returns on page 1
  with a limit above the size of the table: it holds exactly the rows the query asks
  for, in the order of the query. The data are the \<open>l\<close> rows of \<open>whole\<close> after the first
  \<open>(p - 1) * l\<close>; \<open>totalPages\<close> is the least number of pages of size \<open>l\<close> that hold the
  total, \<open>ceil(total / l)\<close>; a next page exists when \<open>p < totalPages\<close> and a previous one
  when \<open>p > 1\<close>.
\<close>

theorem findAll_pagination:
  "p = (case page_q q of None \<Rightarrow> 1 | Some n \<Rightarrow> n) \<Longrightarrow>
   l = (case limit_q q of None \<Rightarrow> 10 | Some n \<Rightarrow> n) \<Longrightarrow>
   1 \<le> p \<Longrightarrow> 1 \<le> l \<Longrightarrow>
   (\<exists>r w. findAll_products t q = Inr r \<and>
      findAll_products t (q\<lparr>page_q := Some 1, limit_q := Some (1 + int (length t))\<rparr>) = Inr w \<and>
      (let whole = data w;
           pages = - ((- int (length whole)) div l)
       in total_items (meta r) = int (length whole)
        \<and> total_items (meta r) = int (length (filter (matches_query q) t))
        \<and> total_items (meta r) = getCount (filters q (createQueryBuilder t))
        \<and> total_items (meta r) =
            int (length (selected (filters q (createQueryBuilder t))))
        \<and> set whole = set (filter (matches_query q) t)
        \<and> data r = take (nat l) (drop (nat ((p - 1) * l)) whole)
        \<and> totalPages (meta r) = Num pages
        \<and> (pages - 1) * l < int (length whole) \<and> int (length whole) \<le> pages * l
        \<and> hasNextPage (meta r) = (p < pages)
        \<and> hasPreviousPage (meta r) = (p > 1)
        \<and> page (meta r) = p \<and> limit (meta r) = l))"
proof -
  assume p: "p = (case page_q q of None \<Rightarrow> 1 | Some n \<Rightarrow> n)"
    and l: "l = (case limit_q q of None \<Rightarrow> 10 | Some n \<Rightarrow> n)"
    and p1: "1 \<le> p" and l1: "1 \<le> l"
  let ?sb = "case sortBy q of None \<Rightarrow> ''createdAt'' | Some s \<Rightarrow> s"
  let ?so = "case sortOrder q of None \<Rightarrow> ''DESC'' | Some s \<Rightarrow> s"
  let ?le = "if ?sb = ''name'' then (\<lambda>a b. string_le (name a) (name b))
                else if ?sb = ''price'' then (\<lambda>a b. price a \<le> price b)
                else if ?sb = ''updatedAt'' then (\<lambda>a b. updatedAt_p a \<le> updatedAt_p b)
                else if ?sb = ''stock'' then (\<lambda>a b. stock a \<le> stock b)
                else (\<lambda>a b. createdAt_p a \<le> createdAt_p b)"
  let ?found = "filter (matches_query q) t"
  let ?ordered = "if ?so = ''ASC'' then order_by ?le ?found
                  else order_by (\<lambda>a b. ?le b a) ?found"
  let ?r = "\<lparr>data = take (nat l) (drop (nat ((p - 1) * l)) ?ordered),
             meta = \<lparr>total_items = int (length ?found), page = p, limit = l,
                     totalPages = ceil_quotient (int (length ?found)) l,
                     hasNextPage = js_less p (ceil_quotient (int (length ?found)) l),
                     hasPreviousPage = (p > 1)\<rparr>\<rparr>"
  let ?w = "\<lparr>data = ?ordered,
             meta = \<lparr>total_items = int (length ?found), page = 1,
                     limit = 1 + int (length t),
                     totalPages = ceil_quotient (int (length ?found)) (1 + int (length t)),
                     hasNextPage =
                       js_less 1 (ceil_quotient (int (length ?found)) (1 + int (length t))),
                     hasPreviousPage = False\<rparr>\<rparr>"
  have r: "findAll_products t q = Inr ?r"
    unfolding findAll_products_result Let_def p l ..
  have w: "findAll_products t (q\<lparr>page_q := Some 1, limit_q := Some (1 + int (length t))\<rparr>)
             = Inr ?w"
    unfolding findAll_products_unpaged Let_def ..
  have len: "length ?ordered = length ?found"
    by (simp add: length_order_by)
  have set: "set ?ordered = set ?found"
    by (simp add: set_order_by)
  have cnt: "getCount (filters q (createQueryBuilder t)) = int (length ?found)"
    by (simp add: getCount_def selected_filters)
  have sel: "selected (filters q (createQueryBuilder t)) = ?found"
    by (rule selected_filters)
  have l0: "l \<noteq> 0" using l1 by simp
  have "let whole = data ?w;
            pages = - ((- int (length whole)) div l)
        in total_items (meta ?r) = int (length whole)
         \<and> total_items (meta ?r) = int (length ?found)
         \<and> total_items (meta ?r) = getCount (filters q (createQueryBuilder t))
         \<and> total_items (meta ?r) =
             int (length (selected (filters q (createQueryBuilder t))))
         \<and> set whole = set ?found
         \<and> data ?r = take (nat l) (drop (nat ((p - 1) * l)) whole)
         \<and> totalPages (meta ?r) = Num pages
         \<and> (pages - 1) * l < int (length whole) \<and> int (length whole) \<le> pages * l
         \<and> hasNextPage (meta ?r) = (p < pages)
         \<and> hasPreviousPage (meta ?r) = (p > 1)
         \<and> page (meta ?r) = p \<and> limit (meta ?r) = l"
    unfolding Let_def
    using ceil_bounds [OF l1, of "int (length ?found)"] l0 len set cnt
    by (simp add: ceil_quotient_def sel)
  then show ?thesis using r w by blast
qed

lemma item_fields [simp]:
  "pid (item i) = i" "createdAt_p (item i) = 1000 * i" "updatedAt_p (item i) = 1000 * i"
  "stock (item i) = 3" "status (item i) = DRAFT"
  "category (item i) = (if i mod 5 = 0 then BOOKS else OTHER)"
  by (simp_all add: item_def)

lemma catalogue_list:
  "catalogue = map item [1, 2, 3, 4, 5, 6, 7, 8, 9, 10, 11, 12, 13, 14, 15, 16, 17, 18, 19, 20,
                         21, 22, 23, 24, 25]"
proof -
  have "[1..25::int] = [1, 2, 3, 4, 5, 6, 7, 8, 9, 10, 11, 12, 13, 14, 15, 16, 17, 18, 19, 20,
                        21, 22, 23, 24, 25]"
    by code_simp
  then show ?thesis by (simp add: catalogue_def)
qed

lemma catalogue_all:
  "filter (matches_query (default_query\<lparr>page_q := a, limit_q := b\<rparr>)) catalogue = catalogue"
  by (simp add: matches_query_def default_query_def)

lemma catalogue_books:
  "filter (matches_query (default_query\<lparr>category_q := Some BOOKS, page_q := a, limit_q := b\<rparr>))
     catalogue = map item [5, 10, 15, 20, 25]"
  by (simp add: matches_query_def default_query_def catalogue_list)

lemma catalogue_desc:
  "order_by (\<lambda>a b. createdAt_p b \<le> createdAt_p a) catalogue =
     map item [25, 24, 23, 22, 21, 20, 19, 18, 17, 16, 15, 14, 13, 12, 11, 10, 9, 8, 7, 6,
               5, 4, 3, 2, 1]"
  by (simp add: catalogue_list order_by_def)

lemma books_desc:
  "order_by (\<lambda>a b. createdAt_p b \<le> createdAt_p a)
     [item 5, item 10, item 15, item 20, item 25] =
     [item 25, item 20, item 15, item 10, item 5]"
  by (simp add: order_by_def)

lemma second_page_of_all:
  "findAll_products catalogue (default_query\<lparr>page_q := Some 2, limit_q := Some 10\<rparr>) =
     Inr \<lparr>data = map item [15, 14, 13, 12, 11, 10, 9, 8, 7, 6],
          meta = \<lparr>total_items = 25, page = 2, limit = 10, totalPages = Num 3,
                  hasNextPage = True, hasPreviousPage = True\<rparr>\<rparr>"
  unfolding findAll_products_result Let_def catalogue_all
  by (simp add: default_query_def catalogue_desc ceil_quotient_def)
     (simp add: catalogue_list)

lemma second_page_of_books:
  "findAll_products catalogue
     (default_query\<lparr>category_q := Some BOOKS, page_q := Some 2, limit_q := Some 2\<rparr>) =
     Inr \<lparr>data = map item [15, 10],
          meta = \<lparr>total_items = 5, page = 2, limit = 2, totalPages = Num 3,
                  hasNextPage = True, hasPreviousPage = True\<rparr>\<rparr>"
  unfolding findAll_products_result Let_def catalogue_books
  by (simp add: default_query_def books_desc ceil_quotient_def)

text \<open>
  The 25 sample products, newest first by default: page 2 of size 10 holds the items at
  positions 11 to 20 of that order (the products 15 down to 6), of 3 pages, with a next
  and a previous page. Of the five books among them, page 2 of size 2 holds the third
  and the fourth, and the total is 5.
\<close>

theorem findAll_pagination_witness:
  "(\<exists>r. findAll_products catalogue (default_query\<lparr>page_q := Some 2, limit_q := Some 10\<rparr>)
          = Inr r
        \<and> data r = map item [15, 14, 13, 12, 11, 10, 9, 8, 7, 6]
        \<and> meta r = \<lparr>total_items = 25, page = 2, limit = 10, totalPages = Num 3,
                     hasNextPage = True, hasPreviousPage = True\<rparr>)
   \<and> (\<exists>r. findAll_products catalogue
             (default_query\<lparr>category_q := Some BOOKS, page_q := Some 2, limit_q := Some 2\<rparr>)
          = Inr r
        \<and> data r = map item [15, 10]
        \<and> total_items (meta r) = 5
        \<and> total_items (meta r) =
            int (length (filter (matches_query
                   (default_query\<lparr>category_q := Some BOOKS, page_q := Some 2,
                                   limit_q := Some 2\<rparr>)) catalogue))
        \<and> totalPages (meta r) = Num 3 \<and> hasNextPage (meta r) \<and> hasPreviousPage (meta r))"
proof -
  let ?q1 = "default_query\<lparr>page_q := Some 2, limit_q := Some 10\<rparr>"
  let ?q2 = "default_query\<lparr>category_q := Some BOOKS, page_q := Some 2, limit_q := Some 2\<rparr>"
  have "\<exists>r w. findAll_products catalogue ?q1 = Inr r \<and>
      findAll_products catalogue
        (?q1\<lparr>page_q := Some 1, limit_q := Some (1 + int (length catalogue))\<rparr>) = Inr w \<and>
      (let whole = data w;
           pages = - ((- int (length whole)) div 10)
       in total_items (meta r) = int (length whole)
        \<and> total_items (meta r) = int (length (filter (matches_query ?q1) catalogue))
        \<and> total_items (meta r) = getCount (filters ?q1 (createQueryBuilder catalogue))
        \<and> total_items (meta r) =
            int (length (selected (filters ?q1 (createQueryBuilder catalogue))))
        \<and> set whole = set (filter (matches_query ?q1) catalogue)
        \<and> data r = take (nat 10) (drop (nat ((2 - 1) * 10)) whole)
        \<and> totalPages (meta r) = Num pages
        \<and> (pages - 1) * 10 < int (length whole) \<and> int (length whole) \<le> pages * 10
        \<and> hasNextPage (meta r) = (2 < pages)
        \<and> hasPreviousPage (meta r) = (2 > (1::int))
        \<and> page (meta r) = 2 \<and> limit (meta r) = 10)"
    by (rule findAll_pagination) (simp_all add: default_query_def)
  then have first: "\<exists>r. findAll_products catalogue ?q1 = Inr r
        \<and> data r = map item [15, 14, 13, 12, 11, 10, 9, 8, 7, 6]
        \<and> meta r = \<lparr>total_items = 25, page = 2, limit = 10, totalPages = Num 3,
                     hasNextPage = True, hasPreviousPage = True\<rparr>"
    unfolding second_page_of_all by simp
  have "\<exists>r w. findAll_products catalogue ?q2 = Inr r \<and>
      findAll_products catalogue
        (?q2\<lparr>page_q := Some 1, limit_q := Some (1 + int (length catalogue))\<rparr>) = Inr w \<and>
      (let whole = data w;
           pages = - ((- int (length whole)) div 2)
       in total_items (meta r) = int (length whole)
        \<and> total_items (meta r) = int (length (filter (matches_query ?q2) catalogue))
        \<and> total_items (meta r) = getCount (filters ?q2 (createQueryBuilder catalogue))
        \<and> total_items (meta r) =
            int (length (selected (filters ?q2 (createQueryBuilder catalogue))))
        \<and> set whole = set (filter (matches_query ?q2) catalogue)
        \<and> data r = take (nat 2) (drop (nat ((2 - 1) * 2)) whole)
        \<and> totalPages (meta r) = Num pages
        \<and> (pages - 1) * 2 < int (length whole) \<and> int (length whole) \<le> pages * 2
        \<and> hasNextPage (meta r) = (2 < pages)
        \<and> hasPreviousPage (meta r) = (2 > (1::int))
        \<and> page (meta r) = 2 \<and> limit (meta r) = 2)"
    by (rule findAll_pagination) (simp_all add: default_query_def)
  then have second: "\<exists>r. findAll_products catalogue ?q2 = Inr r
        \<and> data r = map item [15, 10]
        \<and> total_items (meta r) = 5
        \<and> total_items (meta r) = int (length (filter (matches_query ?q2) catalogue))
        \<and> totalPages (meta r) = Num 3 \<and> hasNextPage (meta r) \<and> hasPreviousPage (meta r)"
    unfolding second_page_of_books by (auto simp add: Let_def catalogue_books)
  show ?thesis using first second by (rule conjI)
qed

lemma sortBy_fallback:
  "sortBy q = Some s \<Longrightarrow> s \<notin> set allowedSortFields \<Longrightarrow>
   findAll_products t q = findAll_products t (q\<lparr>sortBy := Some ''createdAt''\<rparr>)"
  unfolding findAll_products_result Let_def
  by (simp add: matches_query_paging allowedSortFields_def cong: if_cong)

lemma sortOrder_fallback:
  "sortOrder q = Some d \<Longrightarrow> d \<noteq> ''ASC'' \<Longrightarrow>
   findAll_products t q = findAll_products t (q\<lparr>sortOrder := Some ''DESC''\<rparr>)"
  unfolding findAll_products_result Let_def
  by (simp add: matches_query_paging cong: if_cong)

lemma fallback_order:
  assumes "sortBy q = Some s" "s \<notin> set allowedSortFields"
    and "sortOrder q = None \<or> sortOrder q = Some d \<and> d \<noteq> ''ASC''"
    and "findAll_products t q = Inr r"
  shows "data r =
          take (nat (limit (meta r)))
            (drop (nat ((page (meta r) - 1) * limit (meta r)))
               (order_by (\<lambda>a b. createdAt_p b \<le> createdAt_p a)
                  (selected (filters q (createQueryBuilder t)))))"
proof -
  have so: "(case sortOrder q of None \<Rightarrow> ''DESC'' | Some s \<Rightarrow> s) \<noteq> ''ASC''"
    using assms(3) by auto
  have sb: "s \<noteq> ''name''" "s \<noteq> ''price''" "s \<noteq> ''updatedAt''" "s \<noteq> ''stock''"
    using assms(2) by (auto simp add: allowedSortFields_def)
  show ?thesis
    using assms(4) unfolding findAll_products_result Let_def selected_filters
    using assms(1) so sb by auto
qed

text \<open>
  Claim C5. The listing succeeds for every query: no value of \<open>sortBy\<close> or \<open>sortOrder\<close>
  makes it fail, though the builder fails for a column the table lacks and for a
  direction other than \<open>ASC\<close> and \<open>DESC\<close>. Its data are the page of the rows the query
  asks for in this order: by \<open>name\<close>, \<open>price\<close>, \<open>updatedAt\<close> or \<open>stock\<close> when \<open>sortBy\<close> is
  that field, by \<open>createdAt\<close> when it is \<open>createdAt\<close>, absent or any other value;
  ascending when \<open>sortOrder\<close> is exactly \<open>ASC\<close>, descending when it is absent or any other
  value. So a query whose \<open>sortBy\<close> is not in the allow-list (\<open>name\<close>, \<open>price\<close>,
  \<open>createdAt\<close>, \<open>updatedAt\<close>, \<open>stock\<close>) gets the response of the same query sorted by
  \<open>createdAt\<close>, and a query whose \<open>sortOrder\<close> is not \<open>ASC\<close> the response of the same
  query in order \<open>DESC\<close>.
\<close>

theorem findAll_sort_fallback:
  "(\<exists>r. findAll_products t q = Inr r \<and>
        data r =
          (let p = (case page_q q of None \<Rightarrow> 1 | Some n \<Rightarrow> n);
               l = (case limit_q q of None \<Rightarrow> 10 | Some n \<Rightarrow> n);
               sb = (case sortBy q of None \<Rightarrow> ''createdAt'' | Some s \<Rightarrow> s);
               so = (case sortOrder q of None \<Rightarrow> ''DESC'' | Some s \<Rightarrow> s);
               le = (if sb = ''name'' then (\<lambda>a b. string_le (name a) (name b))
                     else if sb = ''price'' then (\<lambda>a b. price a \<le> price b)
                     else if sb = ''updatedAt'' then (\<lambda>a b. updatedAt_p a \<le> updatedAt_p b)
                     else if sb = ''stock'' then (\<lambda>a b. stock a \<le> stock b)
                     else (\<lambda>a b. createdAt_p a \<le> createdAt_p b));
               found = filter (matches_query q) t;
               ordered = (if so = ''ASC'' then order_by le found
                          else order_by (\<lambda>a b. le b a) found)
           in take (nat l) (drop (nat ((p - 1) * l)) ordered)))
   \<and> (\<forall>s. sortBy q = Some s \<and> s \<notin> set allowedSortFields \<longrightarrow>
        findAll_products t q = findAll_products t (q\<lparr>sortBy := Some ''createdAt''\<rparr>))
   \<and> (\<forall>d. sortOrder q = Some d \<and> d \<noteq> ''ASC'' \<longrightarrow>
        findAll_products t q = findAll_products t (q\<lparr>sortOrder := Some ''DESC''\<rparr>))
   \<and> set allowedSortFields = {''name'', ''price'', ''createdAt'', ''updatedAt'', ''stock''}
   \<and> (\<forall>s d r. sortBy q = Some s \<and> s \<notin> set allowedSortFields \<and>
             (sortOrder q = None \<or> sortOrder q = Some d \<and> d \<noteq> ''ASC'') \<and>
             findAll_products t q = Inr r \<longrightarrow>
        data r =
          take (nat (limit (meta r)))
            (drop (nat ((page (meta r) - 1) * limit (meta r)))
               (order_by (\<lambda>a b. createdAt_p b \<le> createdAt_p a)
                  (selected (filters q (createQueryBuilder t))))))"
proof (intro conjI allI impI)
  show "\<exists>r. findAll_products t q = Inr r \<and>
        data r =
          (let p = (case page_q q of None \<Rightarrow> 1 | Some n \<Rightarrow> n);
               l = (case limit_q q of None \<Rightarrow> 10 | Some n \<Rightarrow> n);
               sb = (case sortBy q of None \<Rightarrow> ''createdAt'' | Some s \<Rightarrow> s);
               so = (case sortOrder q of None \<Rightarrow> ''DESC'' | Some s \<Rightarrow> s);
               le = (if sb = ''name'' then (\<lambda>a b. string_le (name a) (name b))
                     else if sb = ''price'' then (\<lambda>a b. price a \<le> price b)
                     else if sb = ''updatedAt'' then (\<lambda>a b. updatedAt_p a \<le> updatedAt_p b)
                     else if sb = ''stock'' then (\<lambda>a b. stock a \<le> stock b)
                     else (\<lambda>a b. createdAt_p a \<le> createdAt_p b));
               found = filter (matches_query q) t;
               ordered = (if so = ''ASC'' then order_by le found
                          else order_by (\<lambda>a b. le b a) found)
           in take (nat l) (drop (nat ((p - 1) * l)) ordered))"
    unfolding findAll_products_result Let_def by simp
next
  fix s assume "sortBy q = Some s \<and> s \<notin> set allowedSortFields"
  then show "findAll_products t q = findAll_products t (q\<lparr>sortBy := Some ''createdAt''\<rparr>)"
    using sortBy_fallback [of q s t] by simp
next
  fix d assume "sortOrder q = Some d \<and> d \<noteq> ''ASC''"
  then show "findAll_products t q = findAll_products t (q\<lparr>sortOrder := Some ''DESC''\<rparr>)"
    using sortOrder_fallback [of q d t] by simp
next
  show "set allowedSortFields = {''name'', ''price'', ''createdAt'', ''updatedAt'', ''stock''}"
    by (simp add: allowedSortFields_def)
next
  fix s d r
  assume "sortBy q = Some s \<and> s \<notin> set allowedSortFields \<and>
          (sortOrder q = None \<or> sortOrder q = Some d \<and> d \<noteq> ''ASC'') \<and>
          findAll_products t q = Inr r"
  then show "data r =
          take (nat (limit (meta r)))
            (drop (nat ((page (meta r) - 1) * limit (meta r)))
               (order_by (\<lambda>a b. createdAt_p b \<le> createdAt_p a)
                  (selected (filters q (createQueryBuilder t)))))"
    using fallback_order [of q s d t r] by blast
qed

lemma default_query_fields [simp]:
  "search default_query = None" "category_q default_query = None"
  "status_q default_query = None" "minPrice default_query = None"
  "maxPrice default_query = None" "featured default_query = None"
  "inStock default_query = None" "page_q default_query = None"
  "limit_q default_query = None" "sortBy default_query = None"
  "sortOrder default_query = None"
  by (simp_all add: default_query_def)

lemma sorted_query_matches:
  "matches_query (default_query\<lparr>sortBy := a, sortOrder := b\<rparr>) product"
  by (simp add: matches_query_def)

lemma sorted_query_found:
  "filter (matches_query (default_query\<lparr>sortBy := a, sortOrder := b\<rparr>)) t = t"
  by (simp add: sorted_query_matches)

lemma shelf_fields [simp]:
  "name pear = ''pear''" "name apple = ''apple''" "name fig = ''fig''"
  "price pear = 3" "price apple = 2" "price fig = 5"
  "createdAt_p pear = 1000" "createdAt_p apple = 2000" "createdAt_p fig = 3000"
  by (simp_all add: pear_def apple_def fig_def item_def)

lemma shelf_by_name:
  "order_by (\<lambda>a b. string_le (name a) (name b)) shelf = [apple, fig, pear]"
  "order_by (\<lambda>a b. string_le (name b) (name a)) shelf = [pear, fig, apple]"
  by (simp_all add: order_by_def shelf_def)

lemma shelf_by_price:
  "order_by (\<lambda>a b. price a \<le> price b) shelf = [apple, pear, fig]"
  "order_by (\<lambda>a b. price b \<le> price a) shelf = [fig, pear, apple]"
  by (simp_all add: order_by_def shelf_def)

lemma shelf_by_createdAt:
  "order_by (\<lambda>a b. createdAt_p a \<le> createdAt_p b) shelf = [pear, apple, fig]"
  "order_by (\<lambda>a b. createdAt_p b \<le> createdAt_p a) shelf = [fig, apple, pear]"
  by (simp_all add: order_by_def shelf_def)

text \<open>
  The theorem on a shelf of three products, created in the order pear, apple, fig, at
  the prices 3, 2 and 5. Sorted by \<open>name\<close> in order \<open>ASC\<close> the listing is apple, fig, pear;
  sorted by \<open>price\<close> in order \<open>ASC\<close> it is apple, pear, fig, and with no order given fig,
  pear, apple. Sorted by \<open>password\<close>, which is not in the allow-list, it is the listing
  by \<open>createdAt\<close>, newest first; and the order \<open>asc\<close> in lower case is read as \<open>DESC\<close>.
\<close>

theorem findAll_sort_fallback_witness:
  "(\<exists>r. findAll_products shelf
          (default_query\<lparr>sortBy := Some ''name'', sortOrder := Some ''ASC''\<rparr>) = Inr r \<and>
        data r = [apple, fig, pear])
   \<and> (\<exists>r. findAll_products shelf
          (default_query\<lparr>sortBy := Some ''price'', sortOrder := Some ''ASC''\<rparr>) = Inr r \<and>
        data r = [apple, pear, fig])
   \<and> (\<exists>r. findAll_products shelf
          (default_query\<lparr>sortBy := Some ''price'', sortOrder := None\<rparr>) = Inr r \<and>
        data r = [fig, pear, apple])
   \<and> (\<exists>r. findAll_products shelf
          (default_query\<lparr>sortBy := Some ''password'', sortOrder := None\<rparr>) = Inr r \<and>
        data r = [fig, apple, pear])
   \<and> (\<exists>r. findAll_products shelf
          (default_query\<lparr>sortBy := Some ''name'', sortOrder := Some ''asc''\<rparr>) = Inr r \<and>
        data r = [pear, fig, apple])
   \<and> findAll_products shelf (default_query\<lparr>sortBy := Some ''password''\<rparr>)
     = findAll_products shelf (default_query\<lparr>sortBy := Some ''createdAt''\<rparr>)
   \<and> findAll_products shelf (default_query\<lparr>sortBy := Some ''name'', sortOrder := Some ''asc''\<rparr>)
     = findAll_products shelf (default_query\<lparr>sortBy := Some ''name'', sortOrder := Some ''DESC''\<rparr>)"
proof (intro conjI)
  show "\<exists>r. findAll_products shelf
          (default_query\<lparr>sortBy := Some ''name'', sortOrder := Some ''ASC''\<rparr>) = Inr r \<and>
        data r = [apple, fig, pear]"
    using findAll_sort_fallback
            [of shelf "default_query\<lparr>sortBy := Some ''name'', sortOrder := Some ''ASC''\<rparr>",
             THEN conjunct1]
    unfolding Let_def sorted_query_found
    by (simp add: shelf_by_name)
next
  show "\<exists>r. findAll_products shelf
          (default_query\<lparr>sortBy := Some ''price'', sortOrder := Some ''ASC''\<rparr>) = Inr r \<and>
        data r = [apple, pear, fig]"
    using findAll_sort_fallback
            [of shelf "default_query\<lparr>sortBy := Some ''price'', sortOrder := Some ''ASC''\<rparr>",
             THEN conjunct1]
    unfolding Let_def sorted_query_found
    by (simp add: shelf_by_price)
next
  show "\<exists>r. findAll_products shelf
          (default_query\<lparr>sortBy := Some ''price'', sortOrder := None\<rparr>) = Inr r \<and>
        data r = [fig, pear, apple]"
    using findAll_sort_fallback
            [of shelf "default_query\<lparr>sortBy := Some ''price'', sortOrder := None\<rparr>",
             THEN conjunct1]
    unfolding Let_def sorted_query_found
    by (simp add: shelf_by_price)
next
  show "\<exists>r. findAll_products shelf
          (default_query\<lparr>sortBy := Some ''password'', sortOrder := None\<rparr>) = Inr r \<and>
        data r = [fig, apple, pear]"
    using findAll_sort_fallback
            [of shelf "default_query\<lparr>sortBy := Some ''password'', sortOrder := None\<rparr>",
             THEN conjunct1]
    unfolding Let_def sorted_query_found
    by (simp add: shelf_by_createdAt)
next
  show "\<exists>r. findAll_products shelf
          (default_query\<lparr>sortBy := Some ''name'', sortOrder := Some ''asc''\<rparr>) = Inr r \<and>
        data r = [pear, fig, apple]"
    using findAll_sort_fallback
            [of shelf "default_query\<lparr>sortBy := Some ''name'', sortOrder := Some ''asc''\<rparr>",
             THEN conjunct1]
    unfolding Let_def sorted_query_found
    by (simp add: shelf_by_name)
next
  have bad: "sortBy (default_query\<lparr>sortBy := Some ''password''\<rparr>)
               = Some ''password'' \<and> ''password'' \<notin> set allowedSortFields"
    by (simp add: allowedSortFields_def)
  show "findAll_products shelf (default_query\<lparr>sortBy := Some ''password''\<rparr>)
     = findAll_products shelf (default_query\<lparr>sortBy := Some ''createdAt''\<rparr>)"
    using findAll_sort_fallback
            [of shelf "default_query\<lparr>sortBy := Some ''password''\<rparr>",
             THEN conjunct2, THEN conjunct1, rule_format, of "''password''", OF bad]
    by simp
next
  have odd: "sortOrder (default_query\<lparr>sortBy := Some ''name'', sortOrder := Some ''asc''\<rparr>)
               = Some ''asc'' \<and> ''asc'' \<noteq> ''ASC''"
    by simp
  show "findAll_products shelf (default_query\<lparr>sortBy := Some ''name'', sortOrder := Some ''asc''\<rparr>)
     = findAll_products shelf (default_query\<lparr>sortBy := Some ''name'', sortOrder := Some ''DESC''\<rparr>)"
    using findAll_sort_fallback
            [of shelf "default_query\<lparr>sortBy := Some ''name'', sortOrder := Some ''asc''\<rparr>",
             THEN conjunct2, THEN conjunct2, THEN conjunct1, rule_format, of "''asc''", OF odd]
    by simp
qed

section \<open>Properties of stock and discount\<close>

lemma findOne_product_Inr:
  "findOne_product t i = Inr product \<longleftrightarrow> find (\<lambda>p. pid p = i) t = Some product"
  by (simp add: findOne_product_def split: option.splits)

lemma find_pid: "find (\<lambda>p. pid p = i) t = Some product \<Longrightarrow> pid product = i \<and> product \<in> set t"
  by (auto simp add: find_Some_iff)

lemma find_replaced:
  "find (\<lambda>p. pid p = i) t = Some old \<Longrightarrow> pid s = i \<Longrightarrow>
   find (\<lambda>p. pid p = i) (map (\<lambda>p. if pid p = i then s else p) t) = Some s"
  by (induction t) (auto split: if_splits)

lemma status_replaced:
  assumes "distinct (map pid t)" "find (\<lambda>p. pid p = i) t = Some old" "status s = status old"
  shows "map status (map (\<lambda>p. if pid p = i then s else p) t) = map status t"
proof -
  have old: "pid old = i" "old \<in> set t" using find_pid [OF assms(2)] by simp_all
  have inj: "inj_on pid (set t)" using assms(1) by (simp add: distinct_map)
  have "\<And>p. p \<in> set t \<Longrightarrow> pid p = i \<Longrightarrow> p = old"
    using inj old by (auto dest: inj_onD)
  then show ?thesis using assms(3) by (auto simp add: map_eq_conv)
qed

lemma save_product_existing:
  assumes "find (\<lambda>p. pid p = i) t = Some old" "pid product = i"
  shows "save_product t product now =
           (if old = product then (t, product)
            else (map (\<lambda>p. if pid p = i then product\<lparr>updatedAt_p := now\<rparr> else p) t,
                  product\<lparr>updatedAt_p := now\<rparr>))"
  using assms by (simp add: save_product_def Let_def)

lemma stock_unchanged_iff:
  "(product = product\<lparr>stock := stock product + quantity\<rparr>) = (quantity = 0)"
proof
  assume "product = product\<lparr>stock := stock product + quantity\<rparr>"
  then have "stock product = stock (product\<lparr>stock := stock product + quantity\<rparr>)"
    by (rule arg_cong)
  then show "quantity = 0" by simp
next
  assume "quantity = 0"
  then show "product = product\<lparr>stock := stock product + quantity\<rparr>" by simp
qed

lemma updateStock_found:
  assumes "find (\<lambda>p. pid p = i) t = Some product"
  shows "updateStock t i quantity now =
           (if stock product + quantity < 0
            then (t, Inl (BadRequestException
                            (''Insufficient stock. Available: '' @ show_int (stock product) @
                             '', Requested: '' @ show_int (abs quantity))))
            else if quantity = 0
            then (t, Inr product)
            else (map (\<lambda>p. if pid p = i
                            then product\<lparr>stock := stock product + quantity, updatedAt_p := now\<rparr>
                            else p) t,
                  Inr (product\<lparr>stock := stock product + quantity, updatedAt_p := now\<rparr>)))"
proof -
  have pid: "pid (product\<lparr>stock := stock product + quantity\<rparr>) = i"
    using find_pid [OF assms] by simp
  show ?thesis
    using assms
    by (simp add: updateStock_def findOne_product_def Let_def
          save_product_existing [OF assms pid] stock_unchanged_iff)
qed

text \<open>
  Claim C4. For a product that exists (the ids of the table being distinct, as a
  primary key is), a quantity that would make the stock negative fails with the
  bad-request message that states the stock and the absolute quantity, and the table
  is returned as it was. Otherwise the saved product has the new stock and its old
  status, and it is the row that the id now finds. In both cases every row keeps its
  status: a stock of zero does not change it.
\<close>

theorem updateStock_insufficient:
  "distinct (map pid t) \<Longrightarrow> findOne_product t i = Inr product \<Longrightarrow>
   (stock product + quantity < 0 \<longrightarrow>
      updateStock t i quantity now =
        (t, Inl (BadRequestException
                   (''Insufficient stock. Available: '' @ show_int (stock product) @
                    '', Requested: '' @ show_int (abs quantity)))))
   \<and> (0 \<le> stock product + quantity \<longrightarrow>
        (\<exists>saved. snd (updateStock t i quantity now) = Inr saved \<and>
                 stock saved = stock product + quantity \<and>
                 status saved = status product \<and>
                 findOne_product (fst (updateStock t i quantity now)) i = Inr saved))
   \<and> map status (fst (updateStock t i quantity now)) = map status t
   \<and> map pid (fst (updateStock t i quantity now)) = map pid t"
proof -
  assume d: "distinct (map pid t)" and f: "findOne_product t i = Inr product"
  have fd: "find (\<lambda>p. pid p = i) t = Some product"
    using f by (simp add: findOne_product_Inr)
  have pid: "pid product = i" using find_pid [OF fd] by simp
  let ?s = "product\<lparr>stock := stock product + quantity, updatedAt_p := now\<rparr>"
  have st: "map status (map (\<lambda>p. if pid p = i then ?s else p) t) = map status t"
    by (rule status_replaced [OF d fd]) simp
  have ids: "map pid (map (\<lambda>p. if pid p = i then ?s else p) t) = map pid t"
    using pid by (simp add: map_eq_conv)
  have fs: "find (\<lambda>p. pid p = i) (map (\<lambda>p. if pid p = i then ?s else p) t) = Some ?s"
    by (rule find_replaced [OF fd]) (simp add: pid)
  show ?thesis
    unfolding updateStock_found [OF fd]
    using st ids fs fd
    by (auto simp add: findOne_product_Inr)
qed

lemma active_item_fields [simp]:
  "pid (active_item i) = i" "stock (active_item i) = 3" "status (active_item i) = ACTIVE"
  by (simp_all add: active_item_def item_def)

lemma show_int_digits: "show_int 3 = ''3''" "show_int 5 = ''5''"
  by (simp_all add: show_int_def show_nat.simps digit_char_def)

text \<open>
  The theorem on a table of an active and a draft product, each with a stock of 3:
  taking 5 of the first fails and leaves the table, taking 3 leaves it active with a
  stock of zero.
\<close>

theorem updateStock_insufficient_witness:
  "updateStock [active_item 1, item 2] 1 (- 5) 9000 =
     ([active_item 1, item 2],
      Inl (BadRequestException ''Insufficient stock. Available: 3, Requested: 5''))
   \<and> (\<exists>saved. snd (updateStock [active_item 1, item 2] 1 (- 3) 9000) = Inr saved \<and>
               stock saved = 0 \<and> status saved = ACTIVE)
   \<and> map status (fst (updateStock [active_item 1, item 2] 1 (- 3) 9000)) = [ACTIVE, DRAFT]"
proof -
  have d: "distinct (map pid [active_item 1, item 2])" by simp
  have f: "findOne_product [active_item 1, item 2] 1 = Inr (active_item 1)"
    by (simp add: findOne_product_def)
  have fails: "updateStock [active_item 1, item 2] 1 (- 5) 9000 =
     ([active_item 1, item 2],
      Inl (BadRequestException ''Insufficient stock. Available: 3, Requested: 5''))"
    using updateStock_insufficient [OF d f, of "- 5" 9000]
    by (simp add: show_int_digits)
  have works: "(\<exists>saved. snd (updateStock [active_item 1, item 2] 1 (- 3) 9000) = Inr saved \<and>
               stock saved = 0 \<and> status saved = ACTIVE)
     \<and> map status (fst (updateStock [active_item 1, item 2] 1 (- 3) 9000)) = [ACTIVE, DRAFT]"
    using updateStock_insufficient [OF d f, of "- 3" 9000]
    by auto
  show ?thesis
    using fails works by (intro conjI) simp_all
qed

lemma discount_unchanged:
  "product = product\<lparr>discountPercent := v\<rparr> \<Longrightarrow> discountPercent product = v"
  by (drule arg_cong [where f = discountPercent]) simp

text \<open>
  A discount that compares as a finite number: outside 0 to 100 the range check fails
  the call before the product is read; in range, a product that is not active fails
  the business rule, and an active product is saved with the discount.
\<close>

lemma applyDiscount_finite:
  assumes "ToNumber reads_as discount = Finite r"
  shows "(r < 0 \<or> 100 < r \<longrightarrow>
            applyDiscount reads_as t i discount now =
              (t, Inl (BadRequestException ''Discount must be between 0 and 100'')))
         \<and> (\<forall>product. 0 \<le> r \<and> r \<le> 100 \<and> findOne_product t i = Inr product \<and>
               status product \<noteq> ACTIVE \<longrightarrow>
               applyDiscount reads_as t i discount now =
                 (t, Inl (BadRequestException ''Cannot apply discount to inactive products'')))
         \<and> (\<forall>product. 0 \<le> r \<and> r \<le> 100 \<and> findOne_product t i = Inr product \<and>
               status product = ACTIVE \<longrightarrow>
               (\<exists>saved. snd (applyDiscount reads_as t i discount now) = Inr saved \<and>
                        discountPercent saved = discount \<and> pid saved = i))"
proof (intro conjI allI impI)
  assume "r < 0 \<or> 100 < r"
  then show "applyDiscount reads_as t i discount now =
        (t, Inl (BadRequestException ''Discount must be between 0 and 100''))"
    using assms by (simp add: applyDiscount_def)
next
  fix product
  assume "0 \<le> r \<and> r \<le> 100 \<and> findOne_product t i = Inr product \<and>
          status product \<noteq> ACTIVE"
  then show "applyDiscount reads_as t i discount now =
           (t, Inl (BadRequestException ''Cannot apply discount to inactive products''))"
    using assms by (simp add: applyDiscount_def)
next
  fix product
  assume a: "0 \<le> r \<and> r \<le> 100 \<and> findOne_product t i = Inr product \<and>
          status product = ACTIVE"
  then have fd: "find (\<lambda>p. pid p = i) t = Some product"
    by (simp add: findOne_product_Inr)
  have pid: "pid (product\<lparr>discountPercent := discount\<rparr>) = i"
    using find_pid [OF fd] by simp
  show "\<exists>saved. snd (applyDiscount reads_as t i discount now) = Inr saved \<and>
                  discountPercent saved = discount \<and> pid saved = i"
    using a pid assms
    by (auto simp add: applyDiscount_def Let_def save_product_existing [OF fd pid]
          dest: discount_unchanged)
qed

lemma applyDiscount_infinite:
  "ToNumber reads_as discount = PlusInfinity \<or> ToNumber reads_as discount = MinusInfinity \<Longrightarrow>
   applyDiscount reads_as t i discount now =
     (t, Inl (BadRequestException ''Discount must be between 0 and 100''))"
  by (auto simp add: applyDiscount_def)

text \<open>
  A discount that compares as \<open>NaN\<close> passes the range check, whatever the product: both
  comparisons are false, and the call goes on to read the product.
\<close>

lemma applyDiscount_not_a_number:
  assumes "ToNumber reads_as discount = NotANumber"
  shows "applyDiscount reads_as t i discount now =
           (case findOne_product t i of
              Inl e \<Rightarrow> (t, Inl e)
            | Inr product \<Rightarrow>
                if status product \<noteq> ACTIVE
                then (t, Inl (BadRequestException ''Cannot apply discount to inactive products''))
                else (let product = product\<lparr>discountPercent := discount\<rparr>;
                          (t', saved) = save_product t product now
                      in (t', Inr saved)))"
  using assms by (simp add: applyDiscount_def)

lemma applyDiscount_range_error_iff:
  "applyDiscount reads_as t i discount now =
     (t, Inl (BadRequestException ''Discount must be between 0 and 100''))
   \<longleftrightarrow> number_less (ToNumber reads_as discount) (Finite 0) \<or>
       number_less (Finite 100) (ToNumber reads_as discount)"
  by (auto simp add: applyDiscount_def findOne_product_def Let_def
        split: option.splits prod.splits)

text \<open>
  Claim C7. The range check does not fail every discount outside 0 to 100. On a table
  of an active product 1 and a draft product 2, with the discount \<open>undefined\<close> (a request
  whose body has no \<open>discountPercent\<close>) or \<open>NaN\<close>, the call for the draft product fails
  with the error of the business rule and not with the error of the range check; the
  call for a product that is not in the table fails with the not-found error; and the
  call with \<open>undefined\<close> for the active product raises no error and returns the product
  with the discount \<open>undefined\<close>.
\<close>

theorem applyDiscount_accepts_non_numbers:
  "applyDiscount reads_as [active_item 1, item 2] 2 Undefined 9000 =
     ([active_item 1, item 2],
      Inl (BadRequestException ''Cannot apply discount to inactive products''))
   \<and> applyDiscount reads_as [active_item 1, item 2] 2 (Number NotANumber) 9000 =
     ([active_item 1, item 2],
      Inl (BadRequestException ''Cannot apply discount to inactive products''))
   \<and> applyDiscount reads_as [active_item 1, item 2] 3 Undefined 9000 =
     ([active_item 1, item 2], Inl (NotFoundException ''Product with ID 3 not found''))
   \<and> (\<exists>saved. snd (applyDiscount reads_as [active_item 1, item 2] 1 Undefined 9000) = Inr saved \<and>
               pid saved = 1 \<and> status saved = ACTIVE \<and> discountPercent saved = Undefined)"
proof -
  have f: "findOne_product [active_item 1, item 2] 1 = Inr (active_item 1)"
          "findOne_product [active_item 1, item 2] 2 = Inr (item 2)"
          "findOne_product [active_item 1, item 2] 3 =
             Inl (NotFoundException ''Product with ID 3 not found'')"
    by (simp_all add: findOne_product_def show_int_digits)
  have d: "discountPercent (active_item 1) = Null"
    by (simp add: active_item_def item_def)
  have s: "save_product [active_item 1, item 2]
             ((active_item 1)\<lparr>discountPercent := Undefined\<rparr>) 9000 =
           ([(active_item 1)\<lparr>discountPercent := Undefined, updatedAt_p := 9000\<rparr>, item 2],
            (active_item 1)\<lparr>discountPercent := Undefined, updatedAt_p := 9000\<rparr>)"
    using discount_unchanged [of "active_item 1" Undefined] d
    by (auto simp add: save_product_def Let_def)
  show ?thesis
    by (simp add: applyDiscount_not_a_number f s)
qed

end
